theory Spec2Isabelle
  imports Complex_Main "HOL-Library.Multiset"
begin

section \<open>Data model of the EEG preprocessing utilities\<close>

text \<open>
  The three functions of \<^verbatim>\<open>preprocessing_utils.py\<close> (\<^verbatim>\<open>epoching\<close>, \<^verbatim>\<open>mvnn\<close>,
  \<^verbatim>\<open>save_prepr\<close>) work on numpy arrays. A Python exception is a value of \<open>exn\<close>;
  a function that may raise returns \<open>exn + 'a\<close>, with \<open>Inl\<close> for the exception.
  \<open>External\<close> carries the class name of an exception raised inside a library call
  whose body is not part of the repository (numpy's file loader, MNE, scikit-learn, scipy).
\<close>

datatype exn = ValueError | IndexError | UnboundLocalError | External string

text \<open>
  An epoch is one \<open>channel \<times> time\<close> matrix. A 4-D array
  \<open>condition \<times> repetition \<times> channel \<times> time\<close> keeps, as numpy does, its shape next to
  its payload: the length of \<open>cells\<close> is \<open>shape[0]\<close>, and \<open>reps\<close>, \<open>chans\<close>,
  \<open>samples\<close> are \<open>shape[1]\<close>, \<open>shape[2]\<close>, \<open>shape[3]\<close>, which stay known when an
  outer axis has length zero.
\<close>

type_synonym 'a epoch = "'a list list"

record 'a tensor =
  reps :: nat
  chans :: nat
  samples :: nat
  cells :: "'a epoch list list"

definition wf_epoch :: "nat \<Rightarrow> nat \<Rightarrow> 'a epoch \<Rightarrow> bool" where
  "wf_epoch ch t e = (length e = ch \<and> list_all (\<lambda>row. length row = t) e)"

definition wf_tensor :: "'a tensor \<Rightarrow> bool" where
  "wf_tensor X = list_all (\<lambda>row. length row = reps X \<and>
       list_all (wf_epoch (chans X) (samples X)) row) (cells X)"

definition shape :: "'a tensor \<Rightarrow> nat \<times> nat \<times> nat \<times> nat" where
  "shape X = (length (cells X), reps X, chans X, samples X)"

text \<open>\<^verbatim>\<open>np.zeros((c, r, ch, t))\<close>.\<close>

definition zero_epoch :: "nat \<Rightarrow> nat \<Rightarrow> ('a::zero) epoch" where
  "zero_epoch ch t = replicate ch (replicate t 0)"

definition np_zeros :: "nat \<Rightarrow> nat \<Rightarrow> nat \<Rightarrow> nat \<Rightarrow> ('a::zero) tensor" where
  "np_zeros c r ch t =
     \<lparr>reps = r, chans = ch, samples = t,
      cells = replicate c (replicate r (zero_epoch ch t))\<rparr>"

text \<open>\<^verbatim>\<open>np.unique(xs)\<close>: the sorted distinct values.\<close>

definition np_unique :: "int list \<Rightarrow> int list" where
  "np_unique xs = sort (remdups xs)"

text \<open>\<^verbatim>\<open>np.where(xs == v)[0]\<close>: the positions holding \<open>v\<close>, ascending.\<close>

definition np_where_eq :: "int list \<Rightarrow> int \<Rightarrow> nat list" where
  "np_where_eq xs v = filter (\<lambda>j. xs ! j = v) [0..<length xs]"

text \<open>
  \<^verbatim>\<open>target[i] = src\<close> where \<open>target[i]\<close> has \<open>n\<close> epochs and \<open>src\<close> is a stack of
  epochs of the same channel and time extent: numpy copies when the lengths agree,
  broadcasts a stack of one epoch to all \<open>n\<close> places, and raises ValueError otherwise.
\<close>

definition assign_row :: "nat \<Rightarrow> 'a epoch list \<Rightarrow> exn + 'a epoch list" where
  "assign_row n src =
     (if length src = n then Inr src
      else if length src = 1 then Inr (replicate n (hd src))
      else Inl ValueError)"

text \<open>\<^verbatim>\<open>a[js]\<close> along the first axis; an index past the end raises IndexError.\<close>

definition take_idx :: "'b list \<Rightarrow> nat list \<Rightarrow> exn + 'b list" where
  "take_idx a js = (if list_all (\<lambda>j. j < length a) js then Inr (map ((!) a) js)
                    else Inl IndexError)"

text \<open>\<^verbatim>\<open>np.append(a, b, 0)\<close> and \<^verbatim>\<open>np.append(a, b, 1)\<close> on 4-D arrays: every axis
  but the one appended along must agree.\<close>

definition np_append0 :: "'a tensor \<Rightarrow> 'a tensor \<Rightarrow> exn + 'a tensor" where
  "np_append0 a b =
     (if reps a = reps b \<and> chans a = chans b \<and> samples a = samples b
      then Inr (a\<lparr>cells := cells a @ cells b\<rparr>)
      else Inl ValueError)"

definition np_append1 :: "'a tensor \<Rightarrow> 'a tensor \<Rightarrow> exn + 'a tensor" where
  "np_append1 a b =
     (if length (cells a) = length (cells b) \<and> chans a = chans b \<and> samples a = samples b
      then Inr (a\<lparr>reps := reps a + reps b,
                  cells := map (\<lambda>(x, y). x @ y) (zip (cells a) (cells b))\<rparr>)
      else Inl ValueError)"

section \<open>Arguments, paths and the world outside the functions\<close>

text \<open>The fields of the \<^verbatim>\<open>args\<close> namespace that the three functions read.\<close>

record args =
  sub :: nat
  n_ses :: nat
  sfreq :: int
  mvnn_dim :: string
  project_dir :: string

text \<open>\<^verbatim>\<open>format(n, '02')\<close>: decimal digits, padded with zeros to width two.\<close>

fun decimal :: "nat \<Rightarrow> string" where
  "decimal n = (if n < 10 then [char_of (48 + n)]
                else decimal (n div 10) @ [char_of (48 + n mod 10)])"

definition format02 :: "nat \<Rightarrow> string" where
  "format02 n = replicate (2 - length (decimal n)) (CHR ''0'') @ decimal n"

text \<open>\<^verbatim>\<open>os.path.join\<close> on a base directory and relative components.\<close>

definition path_join2 :: "string \<Rightarrow> string \<Rightarrow> string" where
  "path_join2 a b = (if a = [] \<or> last a = CHR ''/'' then a @ b else a @ ''/'' @ b)"

definition path_join :: "string list \<Rightarrow> string" where
  "path_join ps = foldl path_join2 [] ps"

text \<open>The dictionary that \<^verbatim>\<open>save_prepr\<close> writes with \<^verbatim>\<open>np.save\<close>.\<close>

record 'a merged_record =
  preprocessed_eeg_data :: "'a tensor"
  out_ch_names :: "string list"
  out_times :: "'a list"

text \<open>
  What the functions change outside their local variables: the state of numpy's global
  random generator, the files written, and the log of resampling requests sent to MNE
  (session index and requested rate).
\<close>

datatype call = Resample nat int

record ('a, 'g) world =
  rng :: 'g
  disk :: "string \<rightharpoonup> 'a merged_record"
  calls :: "call list"

text \<open>
  The random generator is outside the repository: \<open>seed\<close> is \<^verbatim>\<open>np.random.seed\<close>,
  which replaces the global state, and \<open>shuffle\<close> is \<^verbatim>\<open>sklearn.utils.shuffle\<close> on an
  index array, which reads and advances it.
\<close>

record 'g rng_api =
  seed :: "int \<Rightarrow> 'g"
  shuffle :: "'g \<Rightarrow> nat list \<Rightarrow> nat list \<times> 'g"

section \<open>\<^verbatim>\<open>save_prepr\<close>: merging the training data (lines 240--261)\<close>

text \<open>
  Lines 241--247. The loop over \<open>s\<close> in \<open>range(n_ses)\<close>; \<open>acc\<close> is the pair of local
  variables \<open>(white_data, img_cond)\<close>, \<open>None\<close> while they are unbound.
\<close>

fun concat_train :: "'a tensor list \<Rightarrow> int list list \<Rightarrow> nat list \<Rightarrow>
    ('a tensor \<times> int list) option \<Rightarrow> exn + ('a tensor \<times> int list) option" where
  "concat_train wt ic [] acc = Inr acc"
| "concat_train wt ic (s # ss) acc =
     (if length wt \<le> s then Inl IndexError
      else if s = 0 then
        (if length ic \<le> s then Inl IndexError
         else concat_train wt ic ss (Some (wt ! s, ic ! s)))
      else (case acc of
          None \<Rightarrow> Inl UnboundLocalError
        | Some (white_data, img_cond) \<Rightarrow>
            (case np_append0 white_data (wt ! s) of
               Inl e \<Rightarrow> Inl e
             | Inr white_data' \<Rightarrow>
                 if length ic \<le> s then Inl IndexError
                 else concat_train wt ic ss (Some (white_data', img_cond @ ic ! s)))))"

text \<open>
  Lines 256--260. The loop over \<open>r\<close> in \<open>range(len(idx))\<close>; \<open>od\<close> is the local
  variable \<open>ordered_data\<close>, which the loop leaves as it found it when \<open>idx\<close> is empty.
\<close>

fun gather :: "'a epoch list list \<Rightarrow> nat list \<Rightarrow> nat \<Rightarrow> 'a epoch list option \<Rightarrow>
    exn + 'a epoch list option" where
  "gather white_data [] r od = Inr od"
| "gather white_data (j # js) r od =
     (if length white_data \<le> j then Inl IndexError
      else if r = 0 then gather white_data js (Suc r) (Some (white_data ! j))
      else (case od of
          None \<Rightarrow> Inl UnboundLocalError
        | Some ordered_data \<Rightarrow>
            gather white_data js (Suc r) (Some (ordered_data @ white_data ! j))))"

text \<open>
  Lines 253--261. The loop over \<open>i\<close> in \<open>range(len(np.unique(img_cond)))\<close>;
  \<open>ordered_data\<close> lives across iterations, and \<open>n\<close> is the repetition-axis length of
  \<open>merged_train\<close>.
\<close>

fun fill_rows :: "'a epoch list list \<Rightarrow> int list \<Rightarrow> nat \<Rightarrow> nat list \<Rightarrow>
    'a epoch list option \<Rightarrow> 'a epoch list list \<Rightarrow> exn + 'a epoch list list" where
  "fill_rows white_data img_cond n [] od merged = Inr merged"
| "fill_rows white_data img_cond n (i # is) od merged =
     (case gather white_data (np_where_eq img_cond (int i + 1)) 0 od of
        Inl e \<Rightarrow> Inl e
      | Inr None \<Rightarrow> Inl UnboundLocalError
      | Inr (Some ordered_data) \<Rightarrow>
          (case assign_row n ordered_data of
             Inl e \<Rightarrow> Inl e
           | Inr row \<Rightarrow>
               fill_rows white_data img_cond n is (Some ordered_data) (merged[i := row])))"

definition merge_train :: "args \<Rightarrow> ('a::zero) tensor list \<Rightarrow> int list list \<Rightarrow> exn + 'a tensor" where
  "merge_train a whitened_train img_conditions_train =
     (case concat_train whitened_train img_conditions_train [0..<n_ses a] None of
        Inl e \<Rightarrow> Inl e
      | Inr None \<Rightarrow> Inl UnboundLocalError
      | Inr (Some (white_data, img_cond)) \<Rightarrow>
          (let C = length (np_unique img_cond);
               Z = np_zeros C (reps white_data * 2) (chans white_data) (samples white_data)
           in case fill_rows (cells white_data) img_cond (reps Z) [0..<C] None (cells Z) of
                Inl e \<Rightarrow> Inl e
              | Inr merged \<Rightarrow> Inr (Z\<lparr>cells := merged\<rparr>)))"

section \<open>\<^verbatim>\<open>save_prepr\<close>: the whole function\<close>

text \<open>
  Lines 213--217. The loop over \<open>s\<close> in \<open>range(n_ses)\<close>; \<open>acc\<close> is the local
  variable \<open>merged_test\<close>, \<open>None\<close> while it is unbound.
\<close>

fun concat_test :: "'a tensor list \<Rightarrow> nat list \<Rightarrow> 'a tensor option \<Rightarrow> exn + 'a tensor option" where
  "concat_test wt [] acc = Inr acc"
| "concat_test wt (s # ss) acc =
     (if length wt \<le> s then Inl IndexError
      else if s = 0 then concat_test wt ss (Some (wt ! s))
      else (case acc of
          None \<Rightarrow> Inl UnboundLocalError
        | Some merged_test \<Rightarrow>
            (case np_append1 merged_test (wt ! s) of
               Inl e \<Rightarrow> Inl e
             | Inr merged_test' \<Rightarrow> concat_test wt ss (Some merged_test'))))"

text \<open>\<^verbatim>\<open>X[:, idx]\<close>: the repetitions of every condition row, picked in the order \<open>idx\<close>.\<close>

fun select_rows :: "'a epoch list list \<Rightarrow> nat list \<Rightarrow> exn + 'a epoch list list" where
  "select_rows [] idx = Inr []"
| "select_rows (row # rows) idx =
     (case take_idx row idx of
        Inl e \<Rightarrow> Inl e
      | Inr row' \<Rightarrow> (case select_rows rows idx of
                       Inl e \<Rightarrow> Inl e
                     | Inr rows' \<Rightarrow> Inr (row' # rows')))"

definition select_reps :: "'a tensor \<Rightarrow> nat list \<Rightarrow> exn + 'a tensor" where
  "select_reps X idx =
     (if list_all (\<lambda>j. j < reps X) idx
      then (case select_rows (cells X) idx of
              Inl e \<Rightarrow> Inl e
            | Inr rows \<Rightarrow> Inr (X\<lparr>reps := length idx, cells := rows\<rparr>))
      else Inl IndexError)"

definition save_dir :: "args \<Rightarrow> string" where
  "save_dir a = path_join [''eeg_dataset'', ''preprocessed_data'', ''sub-'' @ format02 (sub a)]"

definition file_name_test :: string where
  "file_name_test = ''preprocessed_eeg_test.npy''"

definition file_name_train :: string where
  "file_name_train = ''preprocessed_eeg_training.npy''"

text \<open>\<^verbatim>\<open>np.save(path, dict)\<close>, after the directory has been created when missing.\<close>

definition np_save :: "string \<Rightarrow> 'a merged_record \<Rightarrow> ('a, 'g) world \<Rightarrow> ('a, 'g) world" where
  "np_save path d w = w\<lparr>disk := (disk w)(path \<mapsto> d)\<rparr>"

text \<open>
  Lines 219--221 and 262--264: draw a permutation of the repetition indices from the
  global generator and reorder the repetition axis by it.
\<close>

definition shuffle_reps :: "'g rng_api \<Rightarrow> 'a tensor \<Rightarrow> ('a, 'g) world \<Rightarrow>
    (exn + 'a tensor) \<times> ('a, 'g) world" where
  "shuffle_reps R X w =
     (case shuffle R (rng w) [0..<reps X] of
        (idx, g) \<Rightarrow> (select_reps X idx, w\<lparr>rng := g\<rparr>))"

definition save_prepr :: "'g rng_api \<Rightarrow> args \<Rightarrow> ('a::zero) tensor list \<Rightarrow> 'a tensor list \<Rightarrow>
    int list list \<Rightarrow> string list \<Rightarrow> 'a list \<Rightarrow> ('a, 'g) world \<Rightarrow> (exn + unit) \<times> ('a, 'g) world" where
  "save_prepr R a whitened_test whitened_train img_conditions_train ch_names tms w =
     (case concat_test whitened_test [0..<n_ses a] None of
        Inl e \<Rightarrow> (Inl e, w)
      | Inr None \<Rightarrow> (Inl UnboundLocalError, w)
      | Inr (Some merged_test) \<Rightarrow>
          (case shuffle_reps R merged_test w of
             (Inl e, w1) \<Rightarrow> (Inl e, w1)
           | (Inr merged_test', w1) \<Rightarrow>
               (let test_dict = \<lparr>preprocessed_eeg_data = merged_test',
                                 out_ch_names = ch_names, out_times = tms\<rparr>;
                    w2 = np_save (path_join [project_dir a, save_dir a, file_name_test])
                           test_dict w1
                in case merge_train a whitened_train img_conditions_train of
                     Inl e \<Rightarrow> (Inl e, w2)
                   | Inr merged_train \<Rightarrow>
                       (case shuffle_reps R merged_train w2 of
                          (Inl e, w3) \<Rightarrow> (Inl e, w3)
                        | (Inr merged_train', w3) \<Rightarrow>
                            (let train_dict = \<lparr>preprocessed_eeg_data = merged_train',
                                   out_ch_names = ch_names, out_times = tms\<rparr>
                             in (Inr (),
                                 np_save (path_join [project_dir a, save_dir a, file_name_train])
                                   train_dict w3))))))"

section \<open>\<^verbatim>\<open>epoching\<close>\<close>

text \<open>
  The dictionary stored in a raw recording file, and the MNE epochs object as far as the
  function reads it: \<^verbatim>\<open>epochs.info['ch_names']\<close>, \<^verbatim>\<open>epochs.times\<close>,
  \<^verbatim>\<open>epochs.events\<close> (rows sample, previous value, marker) and \<^verbatim>\<open>epochs.get_data()\<close>
  with its \<open>shape[1]\<close> and \<open>shape[2]\<close>.
\<close>

type_synonym event = "int \<times> int \<times> int"

record 'a eeg_file =
  file_ch_names :: "string list"
  file_sfreq :: int
  file_ch_types :: "string list"
  raw_eeg_data :: "'a list list"

record 'a epochs =
  ep_ch_names :: "string list"
  ep_times :: "'a list"
  ep_events :: "event list"
  ep_data :: "'a epoch list"
  ep_nchan :: nat
  ep_ntime :: nat

text \<open>
  The library calls whose bodies are outside the repository: \<^verbatim>\<open>np.load\<close> on a path,
  \<^verbatim>\<open>mne.find_events\<close>, the construction of the epochs from the recording restricted
  to the picked channels (\<^verbatim>\<open>RawArray\<close>, \<^verbatim>\<open>pick_channels\<close>, \<^verbatim>\<open>mne.Epochs\<close> with
  window \<open>[-0.2, 0.8]\<close> and baseline \<open>(None, 0)\<close>), and \<^verbatim>\<open>epochs.resample\<close>. Each may
  raise.
\<close>

record 'a mne =
  np_load :: "string \<Rightarrow> exn + 'a eeg_file"
  find_events :: "'a eeg_file \<Rightarrow> exn + event list"
  mne_epochs :: "'a eeg_file \<Rightarrow> string list \<Rightarrow> event list \<Rightarrow> exn + 'a epochs"
  resample :: "'a epochs \<Rightarrow> int \<Rightarrow> exn + 'a epochs"

text \<open>
  \<^verbatim>\<open>mne.pick_channels_regexp(names, '^O *|^P *')\<close>: the indices of the names that the
  pattern matches at their start, which are the names beginning with \<open>O\<close> or \<open>P\<close>.
\<close>

definition pick_channels_regexp :: "string list \<Rightarrow> nat list" where
  "pick_channels_regexp names =
     filter (\<lambda>k. case names ! k of [] \<Rightarrow> False | c # _ \<Rightarrow> c = CHR ''O'' \<or> c = CHR ''P'')
       [0..<length names]"

definition marker :: "event \<Rightarrow> int" where
  "marker ev = snd (snd ev)"

definition max_rep_of :: "string \<Rightarrow> nat" where
  "max_rep_of data_part = (if data_part = ''test'' then 20 else 2)"

text \<open>
  Lines 90--95. The loop over \<open>i\<close> in \<open>range(len(img_cond))\<close>, threading the generator
  state through the calls of \<open>shuffle\<close>.
\<close>

fun sort_rows :: "'g rng_api \<Rightarrow> 'a epoch list \<Rightarrow> int list \<Rightarrow> int list \<Rightarrow> nat \<Rightarrow> nat list \<Rightarrow>
    'a epoch list list \<Rightarrow> 'g \<Rightarrow> (exn + 'a epoch list list) \<times> 'g" where
  "sort_rows R dat evs img_cond max_rep [] sorted_data g = (Inr sorted_data, g)"
| "sort_rows R dat evs img_cond max_rep (i # is) sorted_data g =
     (case shuffle R g (np_where_eq evs (img_cond ! i)) of
        (idx, g') \<Rightarrow>
          (case take_idx dat (take max_rep idx) of
             Inl e \<Rightarrow> (Inl e, g')
           | Inr src \<Rightarrow>
               (case assign_row max_rep src of
                  Inl e \<Rightarrow> (Inl e, g')
                | Inr row \<Rightarrow>
                    sort_rows R dat evs img_cond max_rep is (sorted_data[i := row]) g')))"

text \<open>Lines 76--95: sorting the epochs of one session by image condition.\<close>

definition sort_session :: "'g rng_api \<Rightarrow> string \<Rightarrow> ('a::zero) epochs \<Rightarrow> 'g \<Rightarrow>
    (exn + 'a tensor \<times> int list) \<times> 'g" where
  "sort_session R data_part ep g =
     (let dat = ep_data ep;
          evs = map marker (ep_events ep);
          img_cond = np_unique evs;
          max_rep = max_rep_of data_part;
          Z = np_zeros (length img_cond) max_rep (ep_nchan ep) (ep_ntime ep)
      in case sort_rows R dat evs img_cond max_rep [0..<length img_cond] (cells Z) g of
           (Inl e, g') \<Rightarrow> (Inl e, g')
         | (Inr sorted_data, g') \<Rightarrow> (Inr (Z\<lparr>cells := sorted_data\<rparr>, img_cond), g'))"

text \<open>Lines 70--72: the decision to resample, with the request logged.\<close>

definition maybe_resample :: "'a mne \<Rightarrow> args \<Rightarrow> nat \<Rightarrow> 'a epochs \<Rightarrow> ('a, 'g) world \<Rightarrow>
    (exn + 'a epochs) \<times> ('a, 'g) world" where
  "maybe_resample M a s ep w =
     (if sfreq a < 1000
      then (resample M ep (sfreq a), w\<lparr>calls := calls w @ [Resample s (sfreq a)]\<rparr>)
      else (Inr ep, w))"

definition eeg_dir :: "args \<Rightarrow> string \<Rightarrow> nat \<Rightarrow> string" where
  "eeg_dir a data_part s =
     path_join [''eeg_dataset'', ''raw_data'', ''sub-'' @ format02 (sub a),
                ''ses-'' @ format02 (s + 1), ''raw_eeg_'' @ data_part @ ''.npy'']"

text \<open>Lines 40--95: the body of the loop over the sessions, for session \<open>s\<close>.\<close>

definition epoch_session :: "'a mne \<Rightarrow> 'g rng_api \<Rightarrow> args \<Rightarrow> string \<Rightarrow> nat \<Rightarrow> ('a::zero, 'g) world \<Rightarrow>
    (exn + 'a tensor \<times> int list \<times> string list \<times> 'a list) \<times> ('a, 'g) world" where
  "epoch_session M R a data_part s w =
     (case np_load M (path_join [project_dir a, eeg_dir a data_part s]) of
        Inl e \<Rightarrow> (Inl e, w)
      | Inr eeg_data \<Rightarrow>
     (case find_events M eeg_data of
        Inl e \<Rightarrow> (Inl e, w)
      | Inr found \<Rightarrow>
     (let chan_idx = pick_channels_regexp (file_ch_names eeg_data);
          new_chans = map ((!) (file_ch_names eeg_data)) chan_idx;
          kept = filter (\<lambda>ev. marker ev \<noteq> 99999) found
      in case mne_epochs M eeg_data new_chans kept of
        Inl e \<Rightarrow> (Inl e, w)
      | Inr ep0 \<Rightarrow>
     (case maybe_resample M a s ep0 w of
        (Inl e, w1) \<Rightarrow> (Inl e, w1)
      | (Inr ep, w1) \<Rightarrow>
     (case sort_session R data_part ep (rng w1) of
        (Inl e, g) \<Rightarrow> (Inl e, w1\<lparr>rng := g\<rparr>)
      | (Inr (sorted_data, img_cond), g) \<Rightarrow>
          (Inr (sorted_data, img_cond, ep_ch_names ep, ep_times ep), w1\<lparr>rng := g\<rparr>))))))"

text \<open>
  Lines 36--99. The loop over \<open>s\<close> in \<open>range(n_ses)\<close>; the accumulator holds
  \<open>epoched_data\<close>, \<open>img_conditions\<close>, and the pair \<open>(ch_names, times)\<close>, which is
  unbound until a session has been processed.
\<close>

fun epoching_loop :: "'a mne \<Rightarrow> 'g rng_api \<Rightarrow> args \<Rightarrow> string \<Rightarrow> nat list \<Rightarrow>
    'a tensor list \<times> int list list \<times> (string list \<times> 'a list) option \<Rightarrow> ('a::zero, 'g) world \<Rightarrow>
    (exn + 'a tensor list \<times> int list list \<times> (string list \<times> 'a list) option) \<times> ('a, 'g) world" where
  "epoching_loop M R a data_part [] acc w = (Inr acc, w)"
| "epoching_loop M R a data_part (s # ss) (epoched_data, img_conditions, names_times) w =
     (case epoch_session M R a data_part s w of
        (Inl e, w') \<Rightarrow> (Inl e, w')
      | (Inr (sorted_data, img_cond, ch_names, tms), w') \<Rightarrow>
          epoching_loop M R a data_part ss
            (epoched_data @ [sorted_data], img_conditions @ [img_cond], Some (ch_names, tms)) w')"

definition epoching :: "'a mne \<Rightarrow> 'g rng_api \<Rightarrow> args \<Rightarrow> string \<Rightarrow> ('a::zero, 'g) world \<Rightarrow>
    (exn + 'a tensor list \<times> int list list \<times> string list \<times> 'a list) \<times> ('a, 'g) world" where
  "epoching M R a data_part w =
     (case epoching_loop M R a data_part [0..<n_ses a] ([], [], None)
             (w\<lparr>rng := seed R 20200220\<rparr>) of
        (Inl e, w') \<Rightarrow> (Inl e, w')
      | (Inr (epoched_data, img_conditions, None), w') \<Rightarrow> (Inl UnboundLocalError, w')
      | (Inr (epoched_data, img_conditions, Some (ch_names, tms)), w') \<Rightarrow>
          (Inr (epoched_data, img_conditions, ch_names, tms), w'))"

section \<open>\<^verbatim>\<open>mvnn\<close>\<close>

text \<open>
  Array entries are taken from a field: the properties proved of \<^verbatim>\<open>mvnn\<close> are about
  shapes and about which arrays are written, not about numeric values. The covariance
  estimator \<^verbatim>\<open>_cov(X, shrinkage='auto')\<close> and
  \<^verbatim>\<open>scipy.linalg.fractional_matrix_power(A, -0.5)\<close> are outside the repository;
  \<open>uninitialised\<close> stands for the contents of a fresh \<^verbatim>\<open>np.empty\<close> array.
\<close>

record 'a numerics =
  cov :: "'a list list \<Rightarrow> exn + 'a list list"
  fractional_matrix_power :: "'a list list \<Rightarrow> exn + 'a list list"
  uninitialised :: 'a

definition is_mat :: "nat \<Rightarrow> nat \<Rightarrow> 'a list list \<Rightarrow> bool" where
  "is_mat n m A = (length A = n \<and> list_all (\<lambda>row. length row = m) A)"

text \<open>A list comprehension whose body may raise: the first exception ends it.\<close>

fun collect :: "('b \<Rightarrow> exn + 'c) \<Rightarrow> 'b list \<Rightarrow> exn + 'c list" where
  "collect f [] = Inr []"
| "collect f (x # xs) =
     (case f x of
        Inl e \<Rightarrow> Inl e
      | Inr y \<Rightarrow> (case collect f xs of Inl e \<Rightarrow> Inl e | Inr ys \<Rightarrow> Inr (y # ys)))"

text \<open>\<^verbatim>\<open>cond_data[:,:,t]\<close>: repetitions by channels at time sample \<open>t\<close>.\<close>

definition slice_time :: "'a epoch list \<Rightarrow> nat \<Rightarrow> 'a list list" where
  "slice_time cond_data t = map (map (\<lambda>row. row ! t)) cond_data"

text \<open>The transpose of an \<open>n \<times> m\<close> matrix (\<^verbatim>\<open>np.transpose\<close>, \<^verbatim>\<open>swapaxes\<close>).\<close>

definition np_transpose :: "nat \<Rightarrow> nat \<Rightarrow> 'a list list \<Rightarrow> 'a list list" where
  "np_transpose n m A = map (\<lambda>j. map (\<lambda>i. A ! i ! j) [0..<n]) [0..<m]"

text \<open>The product of an \<open>n \<times> k\<close> matrix with a \<open>k \<times> m\<close> matrix.\<close>

definition matmul :: "nat \<Rightarrow> nat \<Rightarrow> nat \<Rightarrow> ('a::field) list list \<Rightarrow> 'a list list \<Rightarrow> 'a list list" where
  "matmul n k m A B =
     map (\<lambda>i. map (\<lambda>j. sum_list (map (\<lambda>l. A ! i ! l * B ! l ! j) [0..<k])) [0..<m]) [0..<n]"

text \<open>The mean along axis 0 of a stack of \<open>n \<times> m\<close> matrices (\<open>0 / 0\<close> on an empty stack).\<close>

definition np_mean0 :: "nat \<Rightarrow> nat \<Rightarrow> ('a::field) list list list \<Rightarrow> 'a list list" where
  "np_mean0 n m As =
     map (\<lambda>i. map (\<lambda>j. sum_list (map (\<lambda>A. A ! i ! j) As) / of_nat (length As)) [0..<m]) [0..<n]"

text \<open>
  \<^verbatim>\<open>sigma_cond[i] = np.mean(covs, axis=0)\<close> where \<open>sigma_cond[i]\<close> is \<open>ch0 \<times> ch0\<close> and
  every estimate is \<open>ch \<times> ch\<close>: the mean of an empty list is a scalar, which fills the
  target; a \<open>1 \<times> 1\<close> mean is broadcast; any other shape than the target's raises.
\<close>

definition assign_mean :: "nat \<Rightarrow> nat \<Rightarrow> ('a::field) list list list \<Rightarrow> exn + 'a list list" where
  "assign_mean ch0 ch covs =
     (if covs = [] then Inr (replicate ch0 (replicate ch0 (0 / of_nat 0)))
      else if \<not> list_all (is_mat ch ch) covs then Inl ValueError
      else if ch = ch0 then Inr (np_mean0 ch0 ch0 covs)
      else if ch = 1 then Inr (replicate ch0 (replicate ch0 (np_mean0 1 1 covs ! 0 ! 0)))
      else Inl ValueError)"

text \<open>Lines 152--164: the covariance matrix of one image condition of the array \<open>X\<close>.\<close>

definition cond_cov :: "('a::field) numerics \<Rightarrow> args \<Rightarrow> nat \<Rightarrow> 'a tensor \<Rightarrow> 'a epoch list \<Rightarrow>
    exn + 'a list list" where
  "cond_cov N a ch0 X cond_data =
     (if mvnn_dim a = ''time'' then
        (case collect (\<lambda>t. cov N (slice_time cond_data t)) [0..<samples X] of
           Inl e \<Rightarrow> Inl e
         | Inr covs \<Rightarrow> assign_mean ch0 (chans X) covs)
      else if mvnn_dim a = ''epochs'' then
        (case collect (\<lambda>e. cov N (np_transpose (chans X) (samples X) (cond_data ! e)))
                [0..<reps X] of
           Inl e \<Rightarrow> Inl e
         | Inr covs \<Rightarrow> assign_mean ch0 (chans X) covs)
      else Inr (replicate ch0 (replicate ch0 (uninitialised N))))"

text \<open>Lines 149--166: the covariance matrix of one data partition.\<close>

definition part_cov :: "('a::field) numerics \<Rightarrow> args \<Rightarrow> nat \<Rightarrow> 'a tensor \<Rightarrow> exn + 'a list list" where
  "part_cov N a ch0 X =
     (case collect (cond_cov N a ch0 X) (cells X) of
        Inl e \<Rightarrow> Inl e
      | Inr sigma_cond \<Rightarrow> Inr (np_mean0 ch0 ch0 sigma_cond))"

text \<open>The array of shape \<open>(c, r, \<dots>)\<close> read from a flat sequence of \<open>c * r\<close> epochs.\<close>

definition regroup :: "nat \<Rightarrow> nat \<Rightarrow> 'b list \<Rightarrow> 'b list list" where
  "regroup c r ys = map (\<lambda>i. take r (drop (i * r) ys)) [0..<c]"

text \<open>
  Lines 173--178, for one array \<open>X\<close>: reshape to \<open>(-1, ch, t)\<close> (which raises when
  \<open>ch * t = 0\<close>, the unknown extent being undetermined), swap the last two axes, multiply
  on the right by \<open>sigma_inv\<close> (which raises unless it has \<open>ch\<close> rows), swap back, and
  reshape to the shape of \<open>X\<close> (which raises when the number of entries differs).
\<close>

definition whiten :: "('a::field) tensor \<Rightarrow> 'a list list \<Rightarrow> exn + 'a tensor" where
  "whiten X sigma_inv =
     (if chans X = 0 \<or> samples X = 0 then Inl ValueError
      else if \<not> is_mat (chans X) (length (hd sigma_inv)) sigma_inv then Inl ValueError
      else if length (cells X) * reps X \<noteq> 0 \<and> length (hd sigma_inv) \<noteq> chans X
        then Inl ValueError
      else Inr (X\<lparr>cells := regroup (length (cells X)) (reps X)
                  (map (\<lambda>e. np_transpose (samples X) (length (hd sigma_inv))
                              (matmul (samples X) (chans X) (length (hd sigma_inv))
                                 (np_transpose (chans X) (samples X) e) sigma_inv))
                       (concat (cells X)))\<rparr>))"

text \<open>Lines 139--178: one session, from its two arrays to the two whitened arrays.\<close>

definition mvnn_session :: "('a::field) numerics \<Rightarrow> args \<Rightarrow> 'a tensor \<Rightarrow> 'a tensor \<Rightarrow>
    exn + 'a tensor \<times> 'a tensor" where
  "mvnn_session N a X0 X1 =
     (case part_cov N a (chans X0) X0 of
        Inl e \<Rightarrow> Inl e
      | Inr sigma0 \<Rightarrow>
     (case part_cov N a (chans X0) X1 of
        Inl e \<Rightarrow> Inl e
      | Inr sigma1 \<Rightarrow>
     (case fractional_matrix_power N (np_mean0 (chans X0) (chans X0) [sigma0, sigma1]) of
        Inl e \<Rightarrow> Inl e
      | Inr sigma_inv \<Rightarrow>
     (case whiten X0 sigma_inv of
        Inl e \<Rightarrow> Inl e
      | Inr w0 \<Rightarrow>
     (case whiten X1 sigma_inv of
        Inl e \<Rightarrow> Inl e
      | Inr w1 \<Rightarrow> Inr (w0, w1))))))"

text \<open>
  The arrays live in a store: addresses below \<open>fresh\<close> are in use. The lists
  \<^verbatim>\<open>epoched_test\<close>, \<^verbatim>\<open>epoched_train\<close> and the two result lists hold addresses. The
  matrix product of the whitening step creates a new array; no statement of \<^verbatim>\<open>mvnn\<close>
  assigns into an existing one.
\<close>

record 'a heap =
  store :: "nat \<Rightarrow> 'a tensor"
  fresh :: nat

definition alloc :: "'a tensor \<Rightarrow> 'a heap \<Rightarrow> nat \<times> 'a heap" where
  "alloc X h = (fresh h, \<lparr>store = (store h)(fresh h := X), fresh = Suc (fresh h)\<rparr>)"

fun mvnn_loop :: "('a::field) numerics \<Rightarrow> args \<Rightarrow> nat list \<Rightarrow> nat list \<Rightarrow> nat list \<Rightarrow>
    nat list \<times> nat list \<Rightarrow> 'a heap \<Rightarrow> exn + (nat list \<times> nat list) \<times> 'a heap" where
  "mvnn_loop N a epoched_test epoched_train [] acc h = Inr (acc, h)"
| "mvnn_loop N a epoched_test epoched_train (s # ss) (whitened_test, whitened_train) h =
     (if length epoched_test \<le> s \<or> length epoched_train \<le> s then Inl IndexError
      else (case mvnn_session N a (store h (epoched_test ! s)) (store h (epoched_train ! s)) of
          Inl e \<Rightarrow> Inl e
        | Inr (w0, w1) \<Rightarrow>
            (case alloc w0 h of (a0, h0) \<Rightarrow>
             case alloc w1 h0 of (a1, h1) \<Rightarrow>
               mvnn_loop N a epoched_test epoched_train ss
                 (whitened_test @ [a0], whitened_train @ [a1]) h1)))"

definition mvnn :: "('a::field) numerics \<Rightarrow> args \<Rightarrow> nat list \<Rightarrow> nat list \<Rightarrow> 'a heap \<Rightarrow>
    exn + (nat list \<times> nat list) \<times> 'a heap" where
  "mvnn N a epoched_test epoched_train h =
     mvnn_loop N a epoched_test epoched_train [0..<n_ses a] ([], []) h"

section \<open>Sample inputs\<close>

definition demo_args :: "nat \<Rightarrow> args" where
  "demo_args n = \<lparr>sub = 1, n_ses = n, sfreq = 100, mvnn_dim = ''time'', project_dir = ''/data''\<rparr>"


definition demo_session :: "nat \<Rightarrow> nat \<Rightarrow> int \<Rightarrow> int tensor" where
  "demo_session c r v =
     \<lparr>reps = r, chans = 1, samples = 1,
      cells = map (\<lambda>i. map (\<lambda>j. [[v + 10 * int i + int j]]) [0..<r]) [0..<c]\<rparr>"

text \<open>
  A recording with one frontal, two posterior channels and the stimulus channel, at the
  given native rate.
\<close>

definition demo_file :: "int \<Rightarrow> int eeg_file" where
  "demo_file rate =
     \<lparr>file_ch_names = [''Fz'', ''Oz'', ''Pz'', ''stim''], file_sfreq = rate,
      file_ch_types = [''eeg'', ''eeg'', ''eeg'', ''stim''], raw_eeg_data = []\<rparr>"

text \<open>
  Library calls for the sample runs: every session file holds the same recording, in which
  the events \<open>found\<close> are detected; an event less than 200 samples after the start of
  the recording gets no epoch, its window reaching back before the data; every epoch has
  one time sample, whose value on every picked channel is the event's sample index.
\<close>

definition demo_epochs :: "string list \<Rightarrow> event list \<Rightarrow> int epochs" where
  "demo_epochs chs evs =
     \<lparr>ep_ch_names = chs, ep_times = [0],
      ep_events = filter (\<lambda>ev. 200 \<le> fst ev) evs,
      ep_data = map (\<lambda>ev. replicate (length chs) [fst ev]) (filter (\<lambda>ev. 200 \<le> fst ev) evs),
      ep_nchan = length chs, ep_ntime = 1\<rparr>"

definition demo_mne :: "int \<Rightarrow> event list \<Rightarrow> int mne" where
  "demo_mne rate found =
     \<lparr>np_load = (\<lambda>path. Inr (demo_file rate)),
      find_events = (\<lambda>f. Inr found),
      mne_epochs = (\<lambda>f chs evs. Inr (demo_epochs chs evs)),
      resample = (\<lambda>ep rate'. Inr ep)\<rparr>"

definition demo_found :: "event list" where
  "demo_found = [(1000, 0, 7), (2000, 0, 7), (3000, 0, 7), (4000, 0, 5), (5000, 0, 5),
                 (6000, 0, 99999)]"

text \<open>A generator with three states whose shuffle rotates by the state.\<close>

definition demo_rng :: "nat rng_api" where
  "demo_rng = \<lparr>seed = (\<lambda>n. nat (n mod 3)), shuffle = (\<lambda>g xs. (rotate g xs, Suc g mod 3))\<rparr>"

definition demo_world :: "nat \<Rightarrow> (int, nat) world" where
  "demo_world g = \<lparr>rng = g, disk = Map.empty, calls = []\<rparr>"



text \<open>What a caller of \<^verbatim>\<open>mvnn\<close> can see of a result: the two lists of arrays.\<close>

definition returned_arrays :: "exn + (nat list \<times> nat list) \<times> 'a heap \<Rightarrow>
    exn + 'a tensor list \<times> 'a tensor list" where
  "returned_arrays r =
     (case r of
        Inl e \<Rightarrow> Inl e
      | Inr ((wt, wtr), h') \<Rightarrow> Inr (map (store h') wt, map (store h') wtr))"

text \<open>
  Sample numerics for two channels: every covariance estimate is four times the identity
  matrix, and the matrix power divides every entry by eight, which on that matrix is
  its power \<open>-1/2\<close>, one half of the identity.
\<close>

definition demo_numerics :: "rat numerics" where
  "demo_numerics =
     \<lparr>cov = (\<lambda>A. Inr [[4, 0], [0, 4]]),
      fractional_matrix_power = (\<lambda>S. Inr (map (map (\<lambda>x. x / 8)) S)),
      uninitialised = 0\<rparr>"

text \<open>A test array at address 0 and a training array at address 1.\<close>

definition demo_test :: "rat tensor" where
  "demo_test = \<lparr>reps = 2, chans = 2, samples = 2,
                cells = [[[[1, 2], [3, 4]], [[5, 6], [7, 8]]]]\<rparr>"

definition demo_train :: "rat tensor" where
  "demo_train = \<lparr>reps = 1, chans = 2, samples = 2,
                 cells = [[[[9, 10], [11, 12]]], [[[13, 14], [15, 16]]]]\<rparr>"

definition demo_heap :: "rat heap" where
  "demo_heap = \<lparr>store = (\<lambda>p. if p = 0 then demo_test else demo_train), fresh = 2\<rparr>"

section \<open>Properties of the training merge\<close>








lemma fill_rows_first_missing:
  "np_where_eq ic (int i + 1) = [] \<Longrightarrow> fill_rows wd ic n (i # ks) None m = Inl UnboundLocalError"
  by simp










lemma assign_row_length: "assign_row n src = Inr row \<Longrightarrow> length row = n"
  by (auto simp: assign_row_def split: if_splits)








section \<open>Properties of \<^verbatim>\<open>epoching\<close> and of the whole \<^verbatim>\<open>save_prepr\<close>\<close>

lemma sort_rows_length:
  "sort_rows R dat evs ic n ks sd g = (Inr S, g') \<Longrightarrow> length S = length sd"
  by (induction ks arbitrary: sd g) (auto split: prod.splits sum.splits)

lemma sort_rows_frame:
  "sort_rows R dat evs ic n ks sd g = (Inr S, g') \<Longrightarrow> j \<notin> set ks \<Longrightarrow> S ! j = sd ! j"
  by (induction ks arbitrary: sd g) (auto split: prod.splits sum.splits)

lemma sort_rows_step:
  assumes "sort_rows R dat evs ic n (i # ks) sd g = (Inr S, g')"
  obtains idx g1 src row where
    "shuffle R g (np_where_eq evs (ic ! i)) = (idx, g1)"
    "take_idx dat (take n idx) = Inr src"
    "assign_row n src = Inr row"
    "sort_rows R dat evs ic n ks (sd[i := row]) g1 = (Inr S, g')"
  using assms by (auto split: prod.splits sum.splits)

lemma sort_rows_row:
  "sort_rows R dat evs ic n ks sd g = (Inr S, g') \<Longrightarrow> i \<in> set ks \<Longrightarrow> distinct ks \<Longrightarrow>
   i < length sd \<Longrightarrow> length (S ! i) = n"
proof (induction ks arbitrary: sd g)
  case Nil
  then show ?case by simp
next
  case (Cons k ks)
  from Cons.prems(1) obtain idx g1 src row where
    a: "assign_row n src = Inr row" and
    rest: "sort_rows R dat evs ic n ks (sd[k := row]) g1 = (Inr S, g')"
    by (rule sort_rows_step)
  show ?case
  proof (cases "i = k")
    case True
    with Cons.prems have "i \<notin> set ks" by simp
    with rest have "S ! i = (sd[k := row]) ! i" by (rule sort_rows_frame)
    with True Cons.prems a show ?thesis by (simp add: assign_row_length)
  next
    case False
    with Cons.prems have "i \<in> set ks" "distinct ks" "i < length (sd[k := row])" by auto
    with Cons.IH[OF rest] show ?thesis by blast
  qed
qed

lemma sort_session_Inr:
  assumes "sort_session R dp ep g = (Inr (X, c), g')"
  shows "c = np_unique (map marker (ep_events ep)) \<and> reps X = max_rep_of dp \<and>
         chans X = ep_nchan ep \<and> samples X = ep_ntime ep \<and> length (cells X) = length c \<and>
         list_all (\<lambda>row. length row = max_rep_of dp) (cells X)"
proof -
  let ?evs = "map marker (ep_events ep)"
  let ?C = "length (np_unique ?evs)"
  let ?n = "max_rep_of dp"
  let ?Z = "replicate ?C (replicate ?n (zero_epoch (ep_nchan ep) (ep_ntime ep)))"
  from assms obtain S where
    sr: "sort_rows R (ep_data ep) ?evs (np_unique ?evs) ?n [0..<?C] ?Z g = (Inr S, g')" and
    X: "X = \<lparr>reps = ?n, chans = ep_nchan ep, samples = ep_ntime ep, cells = S\<rparr>" and
    c: "c = np_unique ?evs"
    by (auto simp: sort_session_def Let_def np_zeros_def split: prod.splits sum.splits)
  from sr have len: "length S = ?C" by (simp add: sort_rows_length)
  have "length (S ! i) = ?n" if "i < ?C" for i
    using sr that sort_rows_row[of R "ep_data ep" ?evs "np_unique ?evs" ?n "[0..<?C]" ?Z g S g' i]
    by simp
  with len have "list_all (\<lambda>row. length row = ?n) S"
    by (simp add: list_all_length)
  with X c len show ?thesis by simp
qed


lemma epoch_session_Inr:
  assumes "epoch_session M R a dp s w = (Inr (X, c, nm, tm), w1)"
  obtains eeg found ep0 ep w0 g where
    "np_load M (path_join [project_dir a, eeg_dir a dp s]) = Inr eeg"
    "find_events M eeg = Inr found"
    "mne_epochs M eeg (map ((!) (file_ch_names eeg)) (pick_channels_regexp (file_ch_names eeg)))
        (filter (\<lambda>ev. marker ev \<noteq> 99999) found) = Inr ep0"
    "maybe_resample M a s ep0 w = (Inr ep, w0)"
    "sort_session R dp ep (rng w0) = (Inr (X, c), g)"
    "w1 = w0\<lparr>rng := g\<rparr>" "nm = ep_ch_names ep" "tm = ep_times ep"
  using assms
  by (auto simp: epoch_session_def Let_def split: sum.splits prod.splits)


lemma epoching_loop_sessions:
  "epoching_loop M R a dp ss (ed0, ic0, nt0) w = (Inr (ed, ic, nt), w') \<Longrightarrow>
   \<exists>eds ics. ed = ed0 @ eds \<and> ic = ic0 @ ics \<and> length eds = length ss \<and>
     length ics = length ss \<and>
     (\<forall>k<length ss. \<exists>w0 w1 nm tm.
        epoch_session M R a dp (ss ! k) w0 = (Inr (eds ! k, ics ! k, nm, tm), w1))"
proof (induction ss arbitrary: ed0 ic0 nt0 w)
  case Nil
  then show ?case by simp
next
  case (Cons s ss)
  from Cons.prems obtain X c nm tm w1 where
    ses: "epoch_session M R a dp s w = (Inr (X, c, nm, tm), w1)" and
    rest: "epoching_loop M R a dp ss (ed0 @ [X], ic0 @ [c], Some (nm, tm)) w1 =
             (Inr (ed, ic, nt), w')"
    by (auto split: prod.splits sum.splits)
  from Cons.IH[OF rest] obtain eds ics where
    IH: "ed = (ed0 @ [X]) @ eds" "ic = (ic0 @ [c]) @ ics" "length eds = length ss"
      "length ics = length ss"
      "\<forall>k<length ss. \<exists>w0 w1 nm tm.
        epoch_session M R a dp (ss ! k) w0 = (Inr (eds ! k, ics ! k, nm, tm), w1)"
    by blast
  have "\<forall>k<length (s # ss). \<exists>w0 w1 nm tm.
        epoch_session M R a dp ((s # ss) ! k) w0 = (Inr ((X # eds) ! k, (c # ics) ! k, nm, tm), w1)"
  proof (intro allI impI)
    fix k assume "k < length (s # ss)"
    then show "\<exists>w0 w1 nm tm.
        epoch_session M R a dp ((s # ss) ! k) w0 = (Inr ((X # eds) ! k, (c # ics) ! k, nm, tm), w1)"
      using ses IH(5) by (cases k) auto
  qed
  with IH show ?case
    by (intro exI[of _ "X # eds"] exI[of _ "c # ics"]) simp
qed

lemma epoching_sessions:
  assumes "epoching M R a dp w = (Inr (ed, ic, chn, tm), w')"
  shows "length ed = n_ses a \<and> length ic = n_ses a \<and>
     (\<forall>s<n_ses a. \<exists>w0 w1 nm tm'.
        epoch_session M R a dp s w0 = (Inr (ed ! s, ic ! s, nm, tm'), w1))"
proof -
  from assms obtain nt where
    "epoching_loop M R a dp [0..<n_ses a] ([], [], None) (w\<lparr>rng := seed R 20200220\<rparr>) =
       (Inr (ed, ic, nt), w')"
    by (auto simp: epoching_def split: prod.splits sum.splits option.splits)
  from epoching_loop_sessions[OF this] show ?thesis by auto
qed

lemma np_where_eq_count: "length (np_where_eq xs v) = count_list xs v"
proof (induction xs rule: rev_induct)
  case Nil
  then show ?case by (simp add: np_where_eq_def)
next
  case (snoc x xs)
  have "filter (\<lambda>j. (xs @ [x]) ! j = v) [0..<length xs] = filter (\<lambda>j. xs ! j = v) [0..<length xs]"
    by (rule filter_cong) (auto simp: nth_append)
  with snoc show ?case by (simp add: np_where_eq_def)
qed

lemma sort_rows_total:
  assumes perm: "\<And>g xs. mset (fst (shuffle R g xs)) = mset xs"
    and len: "length evs \<le> length dat"
    and enough: "\<forall>i\<in>set ks. n \<le> length (np_where_eq evs (ic ! i))"
  shows "\<exists>S g'. sort_rows R dat evs ic n ks sd g = (Inr S, g')"
  using enough
proof (induction ks arbitrary: sd g)
  case Nil
  then show ?case by simp
next
  case (Cons k ks)
  let ?pos = "np_where_eq evs (ic ! k)"
  obtain idx g1 where sh: "shuffle R g ?pos = (idx, g1)" by (cases "shuffle R g ?pos")
  with perm[of g ?pos] have ms: "mset idx = mset ?pos" by simp
  then have sets: "set idx = set ?pos" and lens: "length idx = length ?pos"
    by (auto dest: mset_eq_setD mset_eq_length)
  have "set (take n idx) \<subseteq> set ?pos" using sets set_take_subset by fastforce
  moreover have "\<forall>j\<in>set ?pos. j < length evs" by (auto simp: np_where_eq_def)
  ultimately have rng: "list_all (\<lambda>j. j < length dat) (take n idx)"
    using len unfolding list_all_iff by (meson subsetD less_le_trans)
  from Cons.prems lens have "length (take n idx) = n" by simp
  with rng have ti: "take_idx dat (take n idx) = Inr (map ((!) dat) (take n idx))"
    and ar: "assign_row n (map ((!) dat) (take n idx)) = Inr (map ((!) dat) (take n idx))"
    by (simp_all add: take_idx_def assign_row_def)
  from Cons.prems Cons.IH[of "sd[k := map ((!) dat) (take n idx)]" g1] sh ti ar
  show ?case by simp
qed

text \<open>
  Claim C2, as the code has it. The sorted array of a session is allocated with the cap
  as its repetition-axis length (20 for the partition \<^verbatim>\<open>'test'\<close>, 2 for any other), and
  every condition row is assigned whole: whenever \<^verbatim>\<open>epoching\<close> returns, every session
  array has exactly the cap as repetition-axis length and every row holds that many
  epochs, whatever the number of epochs recorded for the condition. The length is
  therefore \<open>min(cap, available)\<close> only where at least cap epochs are available; and when
  every condition of a session has at least cap epochs (one marker per epoch, a shuffle that
  permutes), the sorting of that session returns normally.
\<close>

theorem epoching_repetition_cap:
  "(\<forall>ed ic chn tm w'. epoching M R a dp w = (Inr (ed, ic, chn, tm), w') \<longrightarrow>
      (\<forall>s<n_ses a. reps (ed ! s) = max_rep_of dp \<and>
         list_all (\<lambda>row. length row = max_rep_of dp) (cells (ed ! s)))) \<and>
   max_rep_of dp = (if dp = ''test'' then 20 else 2) \<and>
   ((\<forall>g xs. mset (fst (shuffle R g xs)) = mset xs) \<and>
    length (ep_events ep) \<le> length (ep_data ep) \<and>
    (\<forall>v\<in>set (map marker (ep_events ep)).
        max_rep_of dp \<le> count_list (map marker (ep_events ep)) v) \<longrightarrow>
      (\<exists>X g'. sort_session R dp ep g = (Inr (X, np_unique (map marker (ep_events ep))), g')))"
proof (intro conjI allI impI)
  fix ed ic chn tm w' s
  assume run: "epoching M R a dp w = (Inr (ed, ic, chn, tm), w')" and s: "s < n_ses a"
  from epoching_sessions[OF run] s obtain w0 w1 nm tm' where
    "epoch_session M R a dp s w0 = (Inr (ed ! s, ic ! s, nm, tm'), w1)"
    by blast
  then obtain ep g0 g1 where "sort_session R dp ep g0 = (Inr (ed ! s, ic ! s), g1)"
    by (rule epoch_session_Inr)
  from sort_session_Inr[OF this]
  show "reps (ed ! s) = max_rep_of dp"
    "list_all (\<lambda>row. length row = max_rep_of dp) (cells (ed ! s))"
    by simp_all
next
  show "max_rep_of dp = (if dp = ''test'' then 20 else 2)" by (simp add: max_rep_of_def)
next
  let ?evs = "map marker (ep_events ep)"
  let ?C = "length (np_unique ?evs)"
  assume pre: "(\<forall>g xs. mset (fst (shuffle R g xs)) = mset xs) \<and>
    length (ep_events ep) \<le> length (ep_data ep) \<and>
    (\<forall>v\<in>set ?evs. max_rep_of dp \<le> count_list ?evs v)"
  have mem: "np_unique ?evs ! i \<in> set ?evs" if "i < ?C" for i
  proof -
    from that have "np_unique ?evs ! i \<in> set (np_unique ?evs)" by simp
    then show ?thesis by (simp add: np_unique_def)
  qed
  have "\<exists>S g'. sort_rows R (ep_data ep) ?evs (np_unique ?evs) (max_rep_of dp) [0..<?C]
      (replicate ?C (replicate (max_rep_of dp) (zero_epoch (ep_nchan ep) (ep_ntime ep)))) g
      = (Inr S, g')"
  proof (rule sort_rows_total)
    show "mset (fst (shuffle R g xs)) = mset xs" for g xs using pre by blast
    show "length ?evs \<le> length (ep_data ep)" using pre by simp
    show "\<forall>i\<in>set [0..<?C]. max_rep_of dp \<le> length (np_where_eq ?evs (np_unique ?evs ! i))"
    proof
      fix i assume "i \<in> set [0..<?C]"
      then have "np_unique ?evs ! i \<in> set ?evs" using mem by simp
      with pre have "max_rep_of dp \<le> count_list ?evs (np_unique ?evs ! i)" by blast
      then show "max_rep_of dp \<le> length (np_where_eq ?evs (np_unique ?evs ! i))"
        by (simp only: np_where_eq_count)
    qed
  qed
  then show "\<exists>X g'. sort_session R dp ep g = (Inr (X, np_unique ?evs), g')"
    by (auto simp: sort_session_def Let_def np_zeros_def)
qed











text \<open>
  Claim C10, as the code has it. With zero sessions \<^verbatim>\<open>save_prepr\<close> ends at its first
  use of \<open>merged_test\<close>, which no loop iteration has bound: the exception is Python's
  unbound-local-variable error, not a configuration error, and it comes before anything is
  written or drawn, the world being unchanged. \<^verbatim>\<open>epoching\<close> ends the same way at its
  \<open>return\<close>, where \<open>ch_names\<close> is unbound, having only seeded the generator.
\<close>

theorem no_sessions_unbound:
  assumes "n_ses a = 0"
  shows "save_prepr R a wt wtr ic chn tm w = (Inl UnboundLocalError, w) \<and>
         epoching M R' a dp w = (Inl UnboundLocalError, w\<lparr>rng := seed R' 20200220\<rparr>)"
  using assms by (simp add: save_prepr_def epoching_def)

lemma epoch_session_rng_only:
  assumes "rng w1 = rng w2"
  shows "fst (epoch_session M R a dp s w1) = fst (epoch_session M R a dp s w2) \<and>
         rng (snd (epoch_session M R a dp s w1)) = rng (snd (epoch_session M R a dp s w2))"
  using assms
  by (auto simp: epoch_session_def maybe_resample_def Let_def split: sum.splits prod.splits)

lemma epoching_loop_rng_only:
  "rng w1 = rng w2 \<Longrightarrow>
   fst (epoching_loop M R a dp ss acc w1) = fst (epoching_loop M R a dp ss acc w2) \<and>
   rng (snd (epoching_loop M R a dp ss acc w1)) = rng (snd (epoching_loop M R a dp ss acc w2))"
proof (induction ss arbitrary: acc w1 w2)
  case Nil
  then show ?case by (cases acc) simp
next
  case (Cons s ss)
  obtain ed0 ic0 nt0 where acc: "acc = (ed0, ic0, nt0)" by (cases acc)
  obtain r1 v1 where s1: "epoch_session M R a dp s w1 = (r1, v1)"
    by (cases "epoch_session M R a dp s w1")
  from epoch_session_rng_only[OF Cons.prems, of M R a dp s] s1
  obtain v2 where s2: "epoch_session M R a dp s w2 = (r1, v2)" and eq: "rng v1 = rng v2"
    by (cases "epoch_session M R a dp s w2") simp
  show ?case
  proof (cases r1)
    case (Inl e)
    with eq acc s1 s2 show ?thesis by simp
  next
    case (Inr x)
    obtain X c nm tm where x: "x = (X, c, nm, tm)" by (cases x)
    from Cons.IH[OF eq] Inr x acc s1 s2 show ?thesis by simp
  qed
qed

lemma epoching_world_independent:
  "fst (epoching M R a dp w1) = fst (epoching M R a dp w2) \<and>
   rng (snd (epoching M R a dp w1)) = rng (snd (epoching M R a dp w2))"
proof -
  let ?l1 = "epoching_loop M R a dp [0..<n_ses a] ([], [], None) (w1\<lparr>rng := seed R 20200220\<rparr>)"
  let ?l2 = "epoching_loop M R a dp [0..<n_ses a] ([], [], None) (w2\<lparr>rng := seed R 20200220\<rparr>)"
  have "rng (w1\<lparr>rng := seed R 20200220\<rparr>) = rng (w2\<lparr>rng := seed R 20200220\<rparr>)" by simp
  from epoching_loop_rng_only[OF this, of M R a dp "[0..<n_ses a]" "([], [], None)"]
  have eq: "fst ?l1 = fst ?l2" "rng (snd ?l1) = rng (snd ?l2)" by simp_all
  obtain r1 v1 where l1: "?l1 = (r1, v1)" by (cases ?l1)
  from eq l1 obtain v2 where l2: "?l2 = (r1, v2)" and "rng v1 = rng v2"
    by (cases ?l2) simp
  with l1 show ?thesis
    by (auto simp: epoching_def split: sum.splits option.splits)
qed

lemma shuffle_reps_rng_only:
  "rng w1 = rng w2 \<Longrightarrow>
   fst (shuffle_reps R X w1) = fst (shuffle_reps R X w2) \<and>
   rng (snd (shuffle_reps R X w1)) = rng (snd (shuffle_reps R X w2)) \<and>
   disk (snd (shuffle_reps R X w1)) = disk w1 \<and>
   disk (snd (shuffle_reps R X w2)) = disk w2"
  by (simp add: shuffle_reps_def split: prod.splits)

lemma save_prepr_rng_only:
  assumes "rng w1 = rng w2"
  shows "fst (save_prepr R a wt wtr ic chn tm w1) = fst (save_prepr R a wt wtr ic chn tm w2) \<and>
     rng (snd (save_prepr R a wt wtr ic chn tm w1)) =
       rng (snd (save_prepr R a wt wtr ic chn tm w2)) \<and>
     (fst (save_prepr R a wt wtr ic chn tm w1) = Inr () \<longrightarrow>
        (\<forall>p \<in> {path_join [project_dir a, save_dir a, file_name_test],
                 path_join [project_dir a, save_dir a, file_name_train]}.
           disk (snd (save_prepr R a wt wtr ic chn tm w1)) p =
           disk (snd (save_prepr R a wt wtr ic chn tm w2)) p))"
proof (cases "concat_test wt [0..<n_ses a] None")
  case (Inl e)
  with assms show ?thesis by (simp add: save_prepr_def)
next
  case (Inr m)
  show ?thesis
  proof (cases m)
    case None
    with Inr assms show ?thesis by (simp add: save_prepr_def)
  next
    case (Some merged_test)
    let ?pt = "path_join [project_dir a, save_dir a, file_name_test]"
    let ?ptr = "path_join [project_dir a, save_dir a, file_name_train]"
    obtain r1 v1 where t1: "shuffle_reps R merged_test w1 = (r1, v1)"
      by (cases "shuffle_reps R merged_test w1")
    from shuffle_reps_rng_only[OF assms, of R merged_test] t1
    obtain v2 where t2: "shuffle_reps R merged_test w2 = (r1, v2)" and eq1: "rng v1 = rng v2"
      by (cases "shuffle_reps R merged_test w2") simp
    show ?thesis
    proof (cases r1)
      case (Inl e)
      with Inr Some t1 t2 eq1 show ?thesis by (simp add: save_prepr_def)
    next
      case X: (Inr merged_test')
      let ?d = "\<lparr>preprocessed_eeg_data = merged_test', out_ch_names = chn, out_times = tm\<rparr>"
      let ?u1 = "np_save ?pt ?d v1"
      let ?u2 = "np_save ?pt ?d v2"
      have u: "rng ?u1 = rng ?u2" using eq1 by (simp add: np_save_def)
      show ?thesis
      proof (cases "merge_train a wtr ic")
        case (Inl e)
        with Inr Some t1 t2 eq1 X u show ?thesis by (simp add: save_prepr_def)
      next
        case Y: (Inr merged_train)
        obtain q1 x1 where m1: "shuffle_reps R merged_train ?u1 = (q1, x1)"
          by (cases "shuffle_reps R merged_train ?u1")
        from shuffle_reps_rng_only[OF u, of R merged_train] m1
        obtain x2 where m2: "shuffle_reps R merged_train ?u2 = (q1, x2)" and
          eq2: "rng x1 = rng x2" "disk x1 = disk ?u1" "disk x2 = disk ?u2"
          by (cases "shuffle_reps R merged_train ?u2") simp
        show ?thesis
        proof (cases q1)
          case (Inl e)
          with Inr Some t1 t2 eq1 X Y m1 m2 eq2 show ?thesis
            by (simp add: save_prepr_def)
        next
          case Z: (Inr merged_train')
          with Inr Some t1 t2 eq1 X Y m1 m2 eq2 show ?thesis
            by (simp add: save_prepr_def np_save_def)
        qed
      qed
    qed
  qed
qed

text \<open>
  Claim C7. \<^verbatim>\<open>epoching\<close> seeds the global generator before its first draw and reads
  nothing else of the world it starts in: from any two starting worlds, with the same
  library answers, it returns the same arrays, labels or exception and leaves the
  generator in the same state. \<^verbatim>\<open>save_prepr\<close>, run from the world that \<^verbatim>\<open>epoching\<close>
  leaves, then draws the same permutations: it ends the same way, leaves the same
  generator state and, where it returns, has written the same two records.
\<close>

theorem epoching_seed_determinism:
  "fst (epoching M R a dp w1) = fst (epoching M R a dp w2) \<and>
   rng (snd (epoching M R a dp w1)) = rng (snd (epoching M R a dp w2)) \<and>
   fst (save_prepr R a wt wtr ic chn tm (snd (epoching M R a dp w1))) =
     fst (save_prepr R a wt wtr ic chn tm (snd (epoching M R a dp w2))) \<and>
   rng (snd (save_prepr R a wt wtr ic chn tm (snd (epoching M R a dp w1)))) =
     rng (snd (save_prepr R a wt wtr ic chn tm (snd (epoching M R a dp w2)))) \<and>
   (fst (save_prepr R a wt wtr ic chn tm (snd (epoching M R a dp w1))) = Inr () \<longrightarrow>
      (\<forall>p \<in> {path_join [project_dir a, save_dir a, file_name_test],
               path_join [project_dir a, save_dir a, file_name_train]}.
         disk (snd (save_prepr R a wt wtr ic chn tm (snd (epoching M R a dp w1)))) p =
         disk (snd (save_prepr R a wt wtr ic chn tm (snd (epoching M R a dp w2)))) p))"
proof -
  note E = epoching_world_independent[of M R a dp w1 w2]
  from E have "rng (snd (epoching M R a dp w1)) = rng (snd (epoching M R a dp w2))" by simp
  from save_prepr_rng_only[OF this, of R a wt wtr ic chn tm] E show ?thesis by blast
qed

lemma mset_rotate_eq: "mset (rotate n xs) = mset xs"
proof -
  have "mset xs = mset (take (n mod length xs) xs) + mset (drop (n mod length xs) xs)"
    by (simp flip: mset_append)
  then show ?thesis by (simp add: rotate_drop_take add.commute)
qed

lemma demo_rng_perm: "mset (fst (shuffle demo_rng g xs)) = mset xs"
  by (simp add: demo_rng_def mset_rotate_eq)

theorem epoching_repetition_cap_witness:
  "fst (epoching (demo_mne 1000 demo_found) demo_rng (demo_args 2) ''training'' (demo_world 0)) =
     Inr ([\<lparr>reps = 2, chans = 2, samples = 1,
            cells = [[[[4000], [4000]], [[5000], [5000]]],
                     [[[1000], [1000]], [[2000], [2000]]]]\<rparr>,
           \<lparr>reps = 2, chans = 2, samples = 1,
            cells = [[[[5000], [5000]], [[4000], [4000]]],
                     [[[3000], [3000]], [[1000], [1000]]]]\<rparr>],
          [[5, 7], [5, 7]], [''Oz'', ''Pz''], [0]) \<and>
   reps \<lparr>reps = 2, chans = 2, samples = 1,
            cells = [[[[5000::int], [5000]], [[4000], [4000]]],
                     [[[3000], [3000]], [[1000], [1000]]]]\<rparr> = max_rep_of ''training'' \<and>
   list_all (\<lambda>row. length row = max_rep_of ''training'')
     [[[[5000::int], [5000]], [[4000], [4000]]], [[[3000], [3000]], [[1000], [1000]]]] \<and>
   max_rep_of ''training'' = 2 \<and>
   length (ep_events (demo_epochs [''Oz''] (take 5 demo_found))) \<le>
     length (ep_data (demo_epochs [''Oz''] (take 5 demo_found))) \<and>
   list_all (\<lambda>v. max_rep_of ''training'' \<le>
       count_list (map marker (ep_events (demo_epochs [''Oz''] (take 5 demo_found)))) v)
     (map marker (ep_events (demo_epochs [''Oz''] (take 5 demo_found)))) \<and>
   sort_session demo_rng ''training'' (demo_epochs [''Oz''] (take 5 demo_found)) 2 =
     (Inr (\<lparr>reps = 2, chans = 1, samples = 1,
            cells = [[[[4000]], [[5000]]], [[[1000]], [[2000]]]]\<rparr>, [5, 7]), 1)"
proof -
  let ?run = "epoching (demo_mne 1000 demo_found) demo_rng (demo_args 2) ''training'' (demo_world 0)"
  let ?X0 = "\<lparr>reps = 2, chans = 2, samples = 1,
            cells = [[[[4000::int], [4000]], [[5000], [5000]]],
                     [[[1000], [1000]], [[2000], [2000]]]]\<rparr>"
  let ?X1 = "\<lparr>reps = 2, chans = 2, samples = 1,
            cells = [[[[5000::int], [5000]], [[4000], [4000]]],
                     [[[3000], [3000]], [[1000], [1000]]]]\<rparr>"
  let ?ep = "demo_epochs [''Oz''] (take 5 demo_found)"
  note T = epoching_repetition_cap[of "demo_mne 1000 demo_found" demo_rng "demo_args 2"
      "''training''" "demo_world 0" ?ep 2]
  have r: "fst ?run = Inr ([?X0, ?X1], [[5, 7], [5, 7]], [''Oz'', ''Pz''], [0])"
    by code_simp
  then have run: "?run = (Inr ([?X0, ?X1], [[5, 7], [5, 7]], [''Oz'', ''Pz''], [0]), snd ?run)"
    by (simp add: prod_eq_iff)
  have "(1::nat) < n_ses (demo_args 2)" by (simp add: demo_args_def)
  with T run have "reps ([?X0, ?X1] ! 1) = max_rep_of ''training'' \<and>
      list_all (\<lambda>row. length row = max_rep_of ''training'') (cells ([?X0, ?X1] ! 1))"
    by blast
  then have shape1: "reps ?X1 = max_rep_of ''training''"
    "list_all (\<lambda>row. length row = max_rep_of ''training'') (cells ?X1)"
    by simp_all
  from T have cap: "max_rep_of ''training'' = 2" by simp
  have len: "length (ep_events ?ep) \<le> length (ep_data ?ep)"
    by (simp add: demo_epochs_def)
  have enough: "list_all (\<lambda>v. max_rep_of ''training'' \<le> count_list (map marker (ep_events ?ep)) v)
      (map marker (ep_events ?ep))"
    by code_simp
  from enough have ball: "\<forall>v\<in>set (map marker (ep_events ?ep)).
      max_rep_of ''training'' \<le> count_list (map marker (ep_events ?ep)) v"
    by (simp only: list_all_iff)
  from T demo_rng_perm len ball
  have "\<exists>X g'. sort_session demo_rng ''training'' ?ep 2 =
      (Inr (X, np_unique (map marker (ep_events ?ep))), g')"
    by blast
  moreover have "sort_session demo_rng ''training'' ?ep 2 =
     (Inr (\<lparr>reps = 2, chans = 1, samples = 1,
            cells = [[[[4000]], [[5000]]], [[[1000]], [[2000]]]]\<rparr>, [5, 7]), 1)"
    by code_simp
  ultimately show ?thesis using r shape1 cap len enough by simp
qed

text \<open>
  The claim as stated fails for a condition with fewer epochs than the cap: a single
  epoch is broadcast to both places of a training row, so the axis has length 2 where one
  epoch is available; three epochs of a test condition do not fit the 20 places and numpy
  raises.
\<close>

theorem epoching_repetition_counterexample:
  "count_list (map marker [(1000, 0, 7)]) 7 = 1 \<and>
   fst (epoching (demo_mne 1000 [(1000, 0, 7)]) demo_rng (demo_args 1) ''training''
          (demo_world 0)) =
     Inr ([\<lparr>reps = 2, chans = 2, samples = 1,
            cells = [[[[1000], [1000]], [[1000], [1000]]]]\<rparr>],
          [[7]], [''Oz'', ''Pz''], [0]) \<and>
   (2::nat) \<noteq> min 2 1 \<and>
   count_list (map marker [(1000, 0, 7), (2000, 0, 7), (3000, 0, 7)]) 7 = 3 \<and>
   fst (epoching (demo_mne 1000 [(1000, 0, 7), (2000, 0, 7), (3000, 0, 7)]) demo_rng
          (demo_args 1) ''test'' (demo_world 0)) = Inl ValueError"
proof -
  have "count_list (map marker [(1000, 0, 7)]) 7 = 1"
    "count_list (map marker [(1000, 0, 7), (2000, 0, 7), (3000, 0, 7)]) 7 = 3"
    by (simp_all add: marker_def)
  moreover have "fst (epoching (demo_mne 1000 [(1000, 0, 7)]) demo_rng (demo_args 1)
      ''training'' (demo_world 0)) =
     Inr ([\<lparr>reps = 2, chans = 2, samples = 1,
            cells = [[[[1000], [1000]], [[1000], [1000]]]]\<rparr>],
          [[7]], [''Oz'', ''Pz''], [0])"
    by code_simp
  moreover have "fst (epoching (demo_mne 1000 [(1000, 0, 7), (2000, 0, 7), (3000, 0, 7)])
      demo_rng (demo_args 1) ''test'' (demo_world 0)) = Inl ValueError"
    by code_simp
  ultimately show ?thesis by simp
qed






theorem no_sessions_unbound_witness:
  "n_ses (demo_args 0) = 0 \<and>
   save_prepr demo_rng (demo_args 0) [demo_session 1 20 100] [demo_session 1 2 100] [[1]]
       [''Oz''] [0] (demo_world 0) = (Inl UnboundLocalError, demo_world 0) \<and>
   epoching (demo_mne 1000 demo_found) demo_rng (demo_args 0) ''test'' (demo_world 0) =
     (Inl UnboundLocalError, (demo_world 0)\<lparr>rng := seed demo_rng 20200220\<rparr>)"
proof -
  have z: "n_ses (demo_args 0) = 0" by (simp add: demo_args_def)
  from no_sessions_unbound[OF z] z show ?thesis by blast
qed

text \<open>
  With zero sessions the exception of \<^verbatim>\<open>save_prepr\<close> is the unbound-variable error.
\<close>

theorem empty_session_list_counterexample:
  "n_ses (demo_args 0) = 0 \<and>
   fst (save_prepr demo_rng (demo_args 0) [demo_session 1 20 100] [demo_session 1 2 100] [[1]]
       [''Oz''] [0] (demo_world 0)) = Inl UnboundLocalError \<and>
   fst (save_prepr demo_rng (demo_args 0) [] [] [] [] [] (demo_world 0)) = Inl UnboundLocalError"
  by (simp add: save_prepr_def demo_args_def)

section \<open>Properties of \<^verbatim>\<open>mvnn\<close>\<close>

lemma is_mat_np_mean0: "is_mat n m (np_mean0 n m As)"
  by (simp add: is_mat_def np_mean0_def list_all_iff)

lemma is_mat_fill: "is_mat n m (replicate n (replicate m x))"
  by (simp add: is_mat_def list_all_iff)

lemma wf_epoch_transpose: "wf_epoch m n (np_transpose n m A)"
  by (simp add: wf_epoch_def np_transpose_def list_all_iff)

lemma length_regroup: "length (regroup c r ys) = c"
  by (simp add: regroup_def)

lemma rows_length_concat:
  "list_all (\<lambda>row. length row = r) xss \<Longrightarrow> length (concat xss) = length xss * r"
  by (induction xss) auto

lemma regroup_row_length:
  assumes "length ys = c * r" "row \<in> set (regroup c r ys)"
  shows "length row = r"
proof -
  from assms(2) obtain i where i: "i < c" and row: "row = take r (drop (i * r) ys)"
    by (auto simp: regroup_def)
  from i have "Suc i * r \<le> c * r" by (intro mult_le_mono1) simp
  then have "r \<le> c * r - i * r" by simp
  with row assms(1) show ?thesis by simp
qed

lemma regroup_row_set: "row \<in> set (regroup c r ys) \<Longrightarrow> set row \<subseteq> set ys"
  by (auto simp: regroup_def dest!: in_set_takeD in_set_dropD)

lemma whiten_Inr:
  assumes "whiten X W = Inr Y"
  shows "reps Y = reps X \<and> chans Y = chans X \<and> samples Y = samples X \<and>
         length (cells Y) = length (cells X) \<and> 0 < chans X \<and> 0 < samples X \<and>
         is_mat (chans X) (length (hd W)) W \<and>
         (length (cells X) * reps X \<noteq> 0 \<longrightarrow> length (hd W) = chans X)"
  using assms by (auto simp: whiten_def length_regroup split: if_splits)

lemma whiten_shape: "whiten X W = Inr Y \<Longrightarrow> shape Y = shape X"
  by (drule whiten_Inr) (simp add: shape_def)

lemma whiten_wf:
  assumes wf: "wf_tensor X" and run: "whiten X W = Inr Y"
  shows "wf_tensor Y"
proof -
  let ?b = "length (hd W)"
  let ?f = "\<lambda>e. np_transpose (samples X) ?b
              (matmul (samples X) (chans X) ?b (np_transpose (chans X) (samples X) e) W)"
  let ?ys = "map ?f (concat (cells X))"
  note I = whiten_Inr[OF run]
  from run have cY: "cells Y = regroup (length (cells X)) (reps X) ?ys"
    by (auto simp: whiten_def split: if_splits)
  from wf have "list_all (\<lambda>row. length row = reps X) (cells X)"
    by (auto simp: wf_tensor_def list_all_iff)
  then have len: "length ?ys = length (cells X) * reps X"
    by (simp add: rows_length_concat)
  have "length row = reps X \<and> list_all (wf_epoch (chans X) (samples X)) row"
    if row: "row \<in> set (cells Y)" for row
  proof
    from row cY have "row \<in> set (regroup (length (cells X)) (reps X) ?ys)" by simp
    with len show "length row = reps X" by (rule regroup_row_length)
    show "list_all (wf_epoch (chans X) (samples X)) row"
      unfolding list_all_iff
    proof
      fix e assume "e \<in> set row"
      with row cY have e: "e \<in> set ?ys" using regroup_row_set by fastforce
      then have "0 < length ?ys" by (rule length_pos_if_in_set)
      with len have "length (cells X) * reps X \<noteq> 0" by simp
      with I have b: "?b = chans X" by simp
      from e obtain e0 where "e = ?f e0" by auto
      with b show "wf_epoch (chans X) (samples X) e"
        using wf_epoch_transpose[of "chans X" "samples X"] by simp
    qed
  qed
  with I show ?thesis by (simp add: wf_tensor_def list_all_iff)
qed

lemma mvnn_session_Inr:
  assumes "mvnn_session N a X0 X1 = Inr (Y0, Y1)"
  obtains W where "whiten X0 W = Inr Y0" "whiten X1 W = Inr Y1"
  using assms by (auto simp: mvnn_session_def split: sum.splits)

lemma mvnn_loop_inv:
  "mvnn_loop N a et etr ss (wt0, wtr0) h = Inr ((wt, wtr), h') \<Longrightarrow>
   fresh h \<le> fresh h' \<and> (\<forall>p<fresh h. store h' p = store h p) \<and>
   (\<exists>ws wrs. wt = wt0 @ ws \<and> wtr = wtr0 @ wrs \<and> length ws = length ss \<and>
      length wrs = length ss \<and>
      (\<forall>k<length ss. fresh h \<le> ws ! k \<and> fresh h \<le> wrs ! k \<and>
          (et ! (ss ! k) < fresh h \<and> etr ! (ss ! k) < fresh h \<longrightarrow>
             mvnn_session N a (store h (et ! (ss ! k))) (store h (etr ! (ss ! k))) =
               Inr (store h' (ws ! k), store h' (wrs ! k)))))"
proof (induction ss arbitrary: wt0 wtr0 h)
  case Nil
  then show ?case by simp
next
  case (Cons s ss)
  let ?h1 = "\<lambda>w0 w1. \<lparr>store = (store h)(fresh h := w0, Suc (fresh h) := w1),
                      fresh = Suc (Suc (fresh h))\<rparr>"
  from Cons.prems obtain w0 w1 where
    ses: "mvnn_session N a (store h (et ! s)) (store h (etr ! s)) = Inr (w0, w1)" and
    rest: "mvnn_loop N a et etr ss (wt0 @ [fresh h], wtr0 @ [Suc (fresh h)]) (?h1 w0 w1) =
             Inr ((wt, wtr), h')"
    by (auto simp: alloc_def split: if_splits sum.splits)
  from Cons.IH[OF rest] obtain ws wrs where
    fr: "Suc (Suc (fresh h)) \<le> fresh h'" and
    frame: "\<forall>p<Suc (Suc (fresh h)). store h' p = store (?h1 w0 w1) p" and
    wt: "wt = (wt0 @ [fresh h]) @ ws" "wtr = (wtr0 @ [Suc (fresh h)]) @ wrs" and
    len: "length ws = length ss" "length wrs = length ss" and
    each: "\<forall>k<length ss. Suc (Suc (fresh h)) \<le> ws ! k \<and> Suc (Suc (fresh h)) \<le> wrs ! k \<and>
          (et ! (ss ! k) < Suc (Suc (fresh h)) \<and> etr ! (ss ! k) < Suc (Suc (fresh h)) \<longrightarrow>
             mvnn_session N a (store (?h1 w0 w1) (et ! (ss ! k))) (store (?h1 w0 w1) (etr ! (ss ! k))) =
               Inr (store h' (ws ! k), store h' (wrs ! k)))"
    by auto
  have new0: "store h' (fresh h) = w0" and new1: "store h' (Suc (fresh h)) = w1"
    using frame by simp_all
  have old: "\<forall>p<fresh h. store h' p = store h p" using frame by simp
  have "\<forall>k<length (s # ss). fresh h \<le> (fresh h # ws) ! k \<and> fresh h \<le> (Suc (fresh h) # wrs) ! k \<and>
          (et ! ((s # ss) ! k) < fresh h \<and> etr ! ((s # ss) ! k) < fresh h \<longrightarrow>
             mvnn_session N a (store h (et ! ((s # ss) ! k))) (store h (etr ! ((s # ss) ! k))) =
               Inr (store h' ((fresh h # ws) ! k), store h' ((Suc (fresh h) # wrs) ! k)))"
  proof (intro allI impI)
    fix k assume k: "k < length (s # ss)"
    show "fresh h \<le> (fresh h # ws) ! k \<and> fresh h \<le> (Suc (fresh h) # wrs) ! k \<and>
          (et ! ((s # ss) ! k) < fresh h \<and> etr ! ((s # ss) ! k) < fresh h \<longrightarrow>
             mvnn_session N a (store h (et ! ((s # ss) ! k))) (store h (etr ! ((s # ss) ! k))) =
               Inr (store h' ((fresh h # ws) ! k), store h' ((Suc (fresh h) # wrs) ! k)))"
    proof (cases k)
      case 0
      with ses new0 new1 show ?thesis by simp
    next
      case (Suc k')
      with k have k': "k' < length ss" by simp
      with each have
        a: "Suc (Suc (fresh h)) \<le> ws ! k'" "Suc (Suc (fresh h)) \<le> wrs ! k'" and
        b: "et ! (ss ! k') < Suc (Suc (fresh h)) \<and> etr ! (ss ! k') < Suc (Suc (fresh h)) \<longrightarrow>
             mvnn_session N a (store (?h1 w0 w1) (et ! (ss ! k'))) (store (?h1 w0 w1) (etr ! (ss ! k'))) =
               Inr (store h' (ws ! k'), store h' (wrs ! k'))"
        by auto
      have "mvnn_session N a (store h (et ! (ss ! k'))) (store h (etr ! (ss ! k'))) =
               Inr (store h' (ws ! k'), store h' (wrs ! k'))"
        if "et ! (ss ! k') < fresh h" "etr ! (ss ! k') < fresh h"
        using b that by simp
      with a Suc show ?thesis by simp
    qed
  qed
  with fr old wt len show ?case
    by (intro conjI exI[of _ "fresh h # ws"] exI[of _ "Suc (fresh h) # wrs"]) simp_all
qed

lemma collect_total:
  "\<forall>x\<in>set xs. \<exists>y. f x = Inr y \<and> P y \<Longrightarrow> \<exists>ys. collect f xs = Inr ys \<and> list_all P ys"
  by (induction xs) fastforce+

lemma assign_mean_total:
  "list_all (is_mat ch ch) covs \<Longrightarrow> \<exists>S. assign_mean ch ch covs = Inr S \<and> is_mat ch ch S"
  by (simp add: assign_mean_def is_mat_np_mean0 is_mat_fill)

lemma cond_cov_total:
  assumes "\<forall>A. \<exists>S. cov N A = Inr S \<and> is_mat ch ch S" "chans X = ch"
  shows "\<exists>S. cond_cov N a ch X cd = Inr S \<and> is_mat ch ch S"
proof -
  have c: "\<exists>covs. collect (\<lambda>x. cov N (g x)) xs = Inr covs \<and> list_all (is_mat ch ch) covs"
    for g :: "nat \<Rightarrow> 'a list list" and xs
    using assms(1) by (intro collect_total) simp
  show ?thesis
  proof (cases "mvnn_dim a = ''time''")
    case True
    from c[of "slice_time cd" "[0..<samples X]"] obtain covs where
      "collect (\<lambda>t. cov N (slice_time cd t)) [0..<samples X] = Inr covs"
      "list_all (is_mat ch ch) covs" by blast
    with True assms(2) assign_mean_total[of ch covs] show ?thesis
      by (auto simp: cond_cov_def)
  next
    case False
    show ?thesis
    proof (cases "mvnn_dim a = ''epochs''")
      case True
      from c[of "\<lambda>e. np_transpose (chans X) (samples X) (cd ! e)" "[0..<reps X]"] obtain covs where
        "collect (\<lambda>e. cov N (np_transpose (chans X) (samples X) (cd ! e))) [0..<reps X] = Inr covs"
        "list_all (is_mat ch ch) covs" by blast
      with True False assms(2) assign_mean_total[of ch covs] show ?thesis
        by (auto simp: cond_cov_def)
    next
      case ne: False
      with False show ?thesis by (simp add: cond_cov_def is_mat_fill)
    qed
  qed
qed

lemma part_cov_total:
  assumes "\<forall>A. \<exists>S. cov N A = Inr S \<and> is_mat ch ch S" "chans X = ch"
  shows "\<exists>S. part_cov N a ch X = Inr S \<and> is_mat ch ch S"
proof -
  from cond_cov_total[OF assms]
  have "\<forall>cd\<in>set (cells X). \<exists>S. cond_cov N a ch X cd = Inr S \<and> is_mat ch ch S" by blast
  from collect_total[OF this] obtain sc where "collect (cond_cov N a ch X) (cells X) = Inr sc"
    by blast
  then show ?thesis by (simp add: part_cov_def is_mat_np_mean0)
qed

lemma whiten_total:
  assumes "0 < chans X" "0 < samples X" "is_mat (chans X) (chans X) W"
  shows "\<exists>Y. whiten X W = Inr Y"
proof -
  from assms(1,3) have "W \<noteq> []" by (auto simp: is_mat_def)
  then have "hd W \<in> set W" by simp
  with assms(3) have "length (hd W) = chans X" by (auto simp: is_mat_def list_all_iff)
  with assms show ?thesis by (simp add: whiten_def)
qed

lemma mvnn_session_total:
  assumes ch: "0 < chans X0" "chans X1 = chans X0" and t: "0 < samples X0" "0 < samples X1"
    and cv: "\<forall>A. \<exists>S. cov N A = Inr S \<and> is_mat (chans X0) (chans X0) S"
    and fp: "\<forall>S. is_mat (chans X0) (chans X0) S \<longrightarrow>
               (\<exists>W. fractional_matrix_power N S = Inr W \<and> is_mat (chans X0) (chans X0) W)"
  shows "\<exists>Y0 Y1. mvnn_session N a X0 X1 = Inr (Y0, Y1)"
proof -
  let ?ch = "chans X0"
  from part_cov_total[OF cv, of X0 a] obtain s0 where s0: "part_cov N a ?ch X0 = Inr s0" by auto
  from part_cov_total[OF cv ch(2), of a] obtain s1 where s1: "part_cov N a ?ch X1 = Inr s1" by auto
  from fp is_mat_np_mean0[of ?ch ?ch "[s0, s1]"] obtain W where
    W: "fractional_matrix_power N (np_mean0 ?ch ?ch [s0, s1]) = Inr W" "is_mat ?ch ?ch W"
    by blast
  from whiten_total[of X0 W] ch t W obtain Y0 where Y0: "whiten X0 W = Inr Y0" by auto
  from whiten_total[of X1 W] ch t W obtain Y1 where Y1: "whiten X1 W = Inr Y1" by auto
  from s0 s1 W Y0 Y1 show ?thesis by (simp add: mvnn_session_def)
qed

text \<open>
  Claim C6. Whenever \<^verbatim>\<open>mvnn\<close> returns, it returns one whitened array per session and
  partition, each at an address that was not in use before the call, of the same shape in
  all four axes as the input array it was computed from, and with a payload that fits
  that shape when the input's did; every array that existed before the call, the inputs
  among them, is unchanged. And \<^verbatim>\<open>mvnn\<close> does return arrays for a session whose two
  arrays have the same positive number of channels and a positive number of time samples,
  provided the covariance estimator and the matrix power return square matrices over the
  channels.
\<close>

theorem mvnn_shape_and_frame:
  assumes run: "mvnn N a et etr h = Inr ((wt, wtr), h')"
    and inputs: "\<forall>s<n_ses a. et ! s < fresh h \<and> etr ! s < fresh h"
  shows "length wt = n_ses a \<and> length wtr = n_ses a \<and>
     (\<forall>s<n_ses a.
        shape (store h' (wt ! s)) = shape (store h (et ! s)) \<and>
        shape (store h' (wtr ! s)) = shape (store h (etr ! s)) \<and>
        (wf_tensor (store h (et ! s)) \<longrightarrow> wf_tensor (store h' (wt ! s))) \<and>
        (wf_tensor (store h (etr ! s)) \<longrightarrow> wf_tensor (store h' (wtr ! s))) \<and>
        fresh h \<le> wt ! s \<and> fresh h \<le> wtr ! s \<and>
        store h' (et ! s) = store h (et ! s) \<and> store h' (etr ! s) = store h (etr ! s)) \<and>
     (\<forall>p<fresh h. store h' p = store h p) \<and>
     (0 < chans X0 \<and> chans X1 = chans X0 \<and> 0 < samples X0 \<and> 0 < samples X1 \<and>
      (\<forall>A. \<exists>S. cov N A = Inr S \<and> is_mat (chans X0) (chans X0) S) \<and>
      (\<forall>S. is_mat (chans X0) (chans X0) S \<longrightarrow>
           (\<exists>W. fractional_matrix_power N S = Inr W \<and> is_mat (chans X0) (chans X0) W)) \<longrightarrow>
        (\<exists>Y0 Y1. mvnn_session N a X0 X1 = Inr (Y0, Y1)))"
proof -
  from run have "mvnn_loop N a et etr [0..<n_ses a] ([], []) h = Inr ((wt, wtr), h')"
    by (simp add: mvnn_def)
  from mvnn_loop_inv[OF this] have
    len: "length wt = n_ses a" "length wtr = n_ses a" and
    frame: "\<forall>p<fresh h. store h' p = store h p" and
    each: "\<forall>s<n_ses a. fresh h \<le> wt ! s \<and> fresh h \<le> wtr ! s \<and>
          (et ! s < fresh h \<and> etr ! s < fresh h \<longrightarrow>
             mvnn_session N a (store h (et ! s)) (store h (etr ! s)) =
               Inr (store h' (wt ! s), store h' (wtr ! s)))"
    by auto
  have ses: "shape (store h' (wt ! s)) = shape (store h (et ! s)) \<and>
        shape (store h' (wtr ! s)) = shape (store h (etr ! s)) \<and>
        (wf_tensor (store h (et ! s)) \<longrightarrow> wf_tensor (store h' (wt ! s))) \<and>
        (wf_tensor (store h (etr ! s)) \<longrightarrow> wf_tensor (store h' (wtr ! s))) \<and>
        fresh h \<le> wt ! s \<and> fresh h \<le> wtr ! s \<and>
        store h' (et ! s) = store h (et ! s) \<and> store h' (etr ! s) = store h (etr ! s)"
    if s: "s < n_ses a" for s
  proof -
    from s inputs have alloc: "et ! s < fresh h" "etr ! s < fresh h" by auto
    with each s have "mvnn_session N a (store h (et ! s)) (store h (etr ! s)) =
               Inr (store h' (wt ! s), store h' (wtr ! s))" by blast
    then obtain W where
      w0: "whiten (store h (et ! s)) W = Inr (store h' (wt ! s))" and
      w1: "whiten (store h (etr ! s)) W = Inr (store h' (wtr ! s))"
      by (rule mvnn_session_Inr)
    from w0 w1 have "shape (store h' (wt ! s)) = shape (store h (et ! s))"
      "shape (store h' (wtr ! s)) = shape (store h (etr ! s))"
      by (simp_all add: whiten_shape)
    moreover from w0 w1 have "wf_tensor (store h (et ! s)) \<longrightarrow> wf_tensor (store h' (wt ! s))"
      "wf_tensor (store h (etr ! s)) \<longrightarrow> wf_tensor (store h' (wtr ! s))"
      by (auto intro: whiten_wf)
    ultimately show ?thesis using each s frame alloc by simp
  qed
  have tot: "\<exists>Y0 Y1. mvnn_session N a X0 X1 = Inr (Y0, Y1)"
    if "0 < chans X0 \<and> chans X1 = chans X0 \<and> 0 < samples X0 \<and> 0 < samples X1 \<and>
      (\<forall>A. \<exists>S. cov N A = Inr S \<and> is_mat (chans X0) (chans X0) S) \<and>
      (\<forall>S. is_mat (chans X0) (chans X0) S \<longrightarrow>
           (\<exists>W. fractional_matrix_power N S = Inr W \<and> is_mat (chans X0) (chans X0) W))"
    using that by (intro mvnn_session_total) simp_all
  from len ses frame tot show ?thesis by blast
qed

theorem mvnn_shape_and_frame_witness:
  "returned_arrays (mvnn demo_numerics (demo_args 1) [0] [1] demo_heap) =
     Inr ([\<lparr>reps = 2, chans = 2, samples = 2,
             cells = [[[[1 / 2, 1], [3 / 2, 2]], [[5 / 2, 3], [7 / 2, 4]]]]\<rparr>],
          [\<lparr>reps = 1, chans = 2, samples = 2,
             cells = [[[[9 / 2, 5], [11 / 2, 6]]], [[[13 / 2, 7], [15 / 2, 8]]]]\<rparr>]) \<and>
   [0 :: nat] ! 0 < fresh demo_heap \<and> [1 :: nat] ! 0 < fresh demo_heap \<and>
   wf_tensor demo_test \<and> wf_tensor demo_train \<and>
   (\<exists>wt wtr h'. mvnn demo_numerics (demo_args 1) [0] [1] demo_heap = Inr ((wt, wtr), h') \<and>
      length wt = 1 \<and> length wtr = 1 \<and>
      shape (store h' (wt ! 0)) = shape demo_test \<and>
      shape (store h' (wtr ! 0)) = shape demo_train \<and>
      wf_tensor (store h' (wt ! 0)) \<and> wf_tensor (store h' (wtr ! 0)) \<and>
      fresh demo_heap \<le> wt ! 0 \<and> fresh demo_heap \<le> wtr ! 0 \<and>
      store h' 0 = demo_test \<and> store h' 1 = demo_train) \<and>
   (\<exists>Y0 Y1. mvnn_session demo_numerics (demo_args 1) demo_test demo_train = Inr (Y0, Y1))"
proof -
  let ?r = "mvnn demo_numerics (demo_args 1) [0] [1] demo_heap"
  have obs: "returned_arrays ?r =
     Inr ([\<lparr>reps = 2, chans = 2, samples = 2,
             cells = [[[[1 / 2, 1], [3 / 2, 2]], [[5 / 2, 3], [7 / 2, 4]]]]\<rparr>],
          [\<lparr>reps = 1, chans = 2, samples = 2,
             cells = [[[[9 / 2, 5], [11 / 2, 6]]], [[[13 / 2, 7], [15 / 2, 8]]]]\<rparr>])"
    by code_simp
  then obtain wt wtr h' where run: "?r = Inr ((wt, wtr), h')"
    by (auto simp: returned_arrays_def split: sum.splits)
  have n: "n_ses (demo_args 1) = 1" by (simp add: demo_args_def)
  have inputs: "\<forall>s<n_ses (demo_args 1). [0 :: nat] ! s < fresh demo_heap \<and>
      [1 :: nat] ! s < fresh demo_heap"
    unfolding n by (simp add: demo_heap_def)
  have wf: "wf_tensor demo_test" "wf_tensor demo_train"
    by (simp_all add: wf_tensor_def wf_epoch_def demo_test_def demo_train_def)
  have st: "store demo_heap 0 = demo_test" "store demo_heap 1 = demo_train"
    by (simp_all add: demo_heap_def)
  have pre: "0 < chans demo_test \<and> chans demo_train = chans demo_test \<and>
      0 < samples demo_test \<and> 0 < samples demo_train \<and>
      (\<forall>A. \<exists>S. cov demo_numerics A = Inr S \<and> is_mat (chans demo_test) (chans demo_test) S) \<and>
      (\<forall>S. is_mat (chans demo_test) (chans demo_test) S \<longrightarrow>
           (\<exists>W. fractional_matrix_power demo_numerics S = Inr W \<and>
                is_mat (chans demo_test) (chans demo_test) W))"
    by (simp add: demo_test_def demo_train_def demo_numerics_def is_mat_def list_all_iff)
  note T = mvnn_shape_and_frame[OF run inputs, of demo_test demo_train]
  from T pre have tot: "\<exists>Y0 Y1. mvnn_session demo_numerics (demo_args 1) demo_test demo_train =
      Inr (Y0, Y1)"
    by blast
  from T n st wf have
    "length wt = 1 \<and> length wtr = 1 \<and>
      shape (store h' (wt ! 0)) = shape demo_test \<and>
      shape (store h' (wtr ! 0)) = shape demo_train \<and>
      wf_tensor (store h' (wt ! 0)) \<and> wf_tensor (store h' (wtr ! 0)) \<and>
      fresh demo_heap \<le> wt ! 0 \<and> fresh demo_heap \<le> wtr ! 0 \<and>
      store h' 0 = demo_test \<and> store h' 1 = demo_train"
    by simp
  with run have "\<exists>wt wtr h'. ?r = Inr ((wt, wtr), h') \<and>
      length wt = 1 \<and> length wtr = 1 \<and>
      shape (store h' (wt ! 0)) = shape demo_test \<and>
      shape (store h' (wtr ! 0)) = shape demo_train \<and>
      wf_tensor (store h' (wt ! 0)) \<and> wf_tensor (store h' (wtr ! 0)) \<and>
      fresh demo_heap \<le> wt ! 0 \<and> fresh demo_heap \<le> wtr ! 0 \<and>
      store h' 0 = demo_test \<and> store h' 1 = demo_train"
    by blast
  with obs inputs n wf tot show ?thesis by simp
qed

theorem epoching_seed_determinism_witness:
  "rng (demo_world 0) \<noteq> rng (demo_world 1) \<and>
   fst (save_prepr demo_rng (demo_args 2) [demo_session 2 2 100, demo_session 2 2 200]
     [demo_session 2 2 300, demo_session 2 2 400] [[1, 2], [1, 2]] [''Oz''] [0]
     (snd (epoching (demo_mne 1000 demo_found) demo_rng (demo_args 2) ''training''
             (demo_world 0)))) = Inr () \<and>
   disk (snd (save_prepr demo_rng (demo_args 2) [demo_session 2 2 100, demo_session 2 2 200]
     [demo_session 2 2 300, demo_session 2 2 400] [[1, 2], [1, 2]] [''Oz''] [0]
     (snd (epoching (demo_mne 1000 demo_found) demo_rng (demo_args 2) ''training''
             (demo_world 0)))))
     (path_join [project_dir (demo_args 2), save_dir (demo_args 2), file_name_train]) =
   disk (snd (save_prepr demo_rng (demo_args 2) [demo_session 2 2 100, demo_session 2 2 200]
     [demo_session 2 2 300, demo_session 2 2 400] [[1, 2], [1, 2]] [''Oz''] [0]
     (snd (epoching (demo_mne 1000 demo_found) demo_rng (demo_args 2) ''training''
             (demo_world 1)))))
     (path_join [project_dir (demo_args 2), save_dir (demo_args 2), file_name_train]) \<and>
   disk (snd (save_prepr demo_rng (demo_args 2) [demo_session 2 2 100, demo_session 2 2 200]
     [demo_session 2 2 300, demo_session 2 2 400] [[1, 2], [1, 2]] [''Oz''] [0]
     (snd (epoching (demo_mne 1000 demo_found) demo_rng (demo_args 2) ''training''
             (demo_world 0)))))
     (path_join [project_dir (demo_args 2), save_dir (demo_args 2), file_name_train]) =
   Some \<lparr>preprocessed_eeg_data =
           \<lparr>reps = 4, chans = 1, samples = 1,
              cells = [[[[301]], [[400]], [[401]], [[300]]],
                       [[[311]], [[410]], [[411]], [[310]]]]\<rparr>,
         out_ch_names = [''Oz''], out_times = [0]\<rparr>"
proof -
  let ?E = "\<lambda>g. snd (epoching (demo_mne 1000 demo_found) demo_rng (demo_args 2) ''training''
             (demo_world g))"
  let ?S = "\<lambda>g. save_prepr demo_rng (demo_args 2) [demo_session 2 2 100, demo_session 2 2 200]
     [demo_session 2 2 300, demo_session 2 2 400] [[1, 2], [1, 2]] [''Oz''] [0] (?E g)"
  let ?p = "path_join [project_dir (demo_args 2), save_dir (demo_args 2), file_name_train]"
  have ne: "rng (demo_world 0) \<noteq> rng (demo_world 1)" by (simp add: demo_world_def)
  have ok: "fst (?S 0) = Inr ()" by code_simp
  note T = epoching_seed_determinism[of "demo_mne 1000 demo_found" demo_rng "demo_args 2"
      "''training''" "demo_world 0" "demo_world 1"
      "[demo_session 2 2 100, demo_session 2 2 200]"
      "[demo_session 2 2 300, demo_session 2 2 400]" "[[1, 2], [1, 2]]" "[''Oz'']" "[0]"]
  from T ok have same: "disk (snd (?S 0)) ?p = disk (snd (?S 1)) ?p" by blast
  have saved: "disk (snd (?S 0)) ?p =
     Some \<lparr>preprocessed_eeg_data =
           \<lparr>reps = 4, chans = 1, samples = 1,
              cells = [[[[301]], [[400]], [[401]], [[300]]],
                       [[[311]], [[410]], [[411]], [[310]]]]\<rparr>,
         out_ch_names = [''Oz''], out_times = [0]\<rparr>"
    by code_simp
  from ne ok same saved show ?thesis by blast
qed

end
